theory Spec2Isabelle
  imports Complex_Main
begin

section \<open>Module constants and library values\<close>

text \<open>
  The repository holds four successive variants of one SimPy model of a two-stage
  queueing network:
  \<^item> \<^verbatim>\<open>pythonversion.py\<close> (the first conversion, without statistics),
  \<^item> \<^verbatim>\<open>pyhtonsimulationwithstatistics.py\<close> (suffix \<open>_ws\<close> below: the release-all
    \<^verbatim>\<open>BatchAssembler\<close>),
  \<^item> \<^verbatim>\<open>PySimWOAssemblerWorks.py\<close> (suffix \<open>_works\<close>: the lossy gate on module counters),
  \<^item> \<^verbatim>\<open>pyhtonsimulationWOAWGraph.py\<close> (suffix \<open>_graph\<close>: the lossy gate plus utilisation
    series).

  Python numbers are modelled exactly: simulated times, durations and random draws are
  \<^typ>\<open>real\<close>, counters and job identifiers are \<^typ>\<open>int\<close>. Every value the code takes
  from the pseudo-random generator is an argument of the function that draws it.
\<close>

definition MAC_CAPACITY :: int where "MAC_CAPACITY = 6"
definition CAM_CAPACITY :: int where "CAM_CAPACITY = 12"
definition SIMULATION_TIME :: real where "SIMULATION_TIME = 1440"
definition BATCH_SIZE :: int where "BATCH_SIZE = 200"

definition ADVANCE_SERVICE_MEAN :: real where "ADVANCE_SERVICE_MEAN = 0.75"
definition ADVANCE_SERVICE_ERR_MEAN :: real where "ADVANCE_SERVICE_ERR_MEAN = 15"
definition ADVANCE_SERVICE_ERR_DEV :: real where "ADVANCE_SERVICE_ERR_DEV = 2"
definition ADVANCE_CAM_MEAN :: real where "ADVANCE_CAM_MEAN = 372.5"
definition ADVANCE_CAM_DEV :: real where "ADVANCE_CAM_DEV = 2.5"

text \<open>The exceptions that the modelled code paths can raise.\<close>

datatype py_error = ValueError | AttributeError | RuntimeError

text \<open>
  The part of \<^verbatim>\<open>simpy.Environment\<close> the code reads and writes: the clock \<^verbatim>\<open>env.now\<close>, and
  the events made by \<^verbatim>\<open>env.event()\<close>. An event is named by the number of events created
  before it; \<open>succeeded\<close> lists the events on which \<^verbatim>\<open>succeed()\<close> was called, each with the
  clock value of that call. A succeeded event is scheduled with delay zero, so the
  processes waiting for it are resumed at that same clock value; a process waiting for an
  event that is not in \<open>succeeded\<close> stays suspended.
\<close>

record environment =
  now :: real
  next_event :: nat
  succeeded :: "(nat \<times> real) list"

definition Environment :: environment where
  "Environment = \<lparr>now = 0, next_event = 0, succeeded = []\<rparr>"

definition event :: "environment \<Rightarrow> nat \<times> environment" where
  "event env = (next_event env, env\<lparr>next_event := Suc (next_event env)\<rparr>)"

definition succeed :: "nat \<Rightarrow> environment \<Rightarrow> py_error + environment" where
  "succeed ev env =
     (if ev \<in> fst ` set (succeeded env) then Inl RuntimeError
      else Inr (env\<lparr>succeeded := succeeded env @ [(ev, now env)]\<rparr>))"

definition at_time :: "real \<Rightarrow> environment \<Rightarrow> environment" where
  "at_time t env = env\<lparr>now := t\<rparr>"

section \<open>Sampled delays\<close>

text \<open>
  \<^verbatim>\<open>random.gauss(mu, sigma)\<close> returns \<^verbatim>\<open>mu + z * sigma\<close> for a standard normal variate
  \<open>z\<close> computed from the generator state; \<open>z\<close> is the argument here.
  \<^verbatim>\<open>normal_dist\<close> is the same two-line function in all four variants.
\<close>

definition gauss :: "real \<Rightarrow> real \<Rightarrow> real \<Rightarrow> real" where
  "gauss mu sigma z = mu + z * sigma"

definition normal_dist :: "real \<Rightarrow> real \<Rightarrow> real \<Rightarrow> real" where
  "normal_dist mean stdev z = max 0 (gauss mean stdev z)"

section \<open>Time series of the statistics collector\<close>

text \<open>A series is a list of samples \<open>(timestamp, value)\<close>, oldest first.\<close>

type_synonym series = "(real \<times> int) list"

text \<open>A waiting list (\<^verbatim>\<open>mac.queue\<close>, \<^verbatim>\<open>stats.quet_wait_list\<close>, ...) as the job identifiers in it.\<close>

type_synonym waiting = "int list"

text \<open>\<^verbatim>\<open>StatisticsCollector.record_queue_length\<close> of \<^verbatim>\<open>pyhtonsimulationwithstatistics.py\<close>.\<close>

definition record_queue_length_ws :: "environment \<Rightarrow> series \<Rightarrow> int \<Rightarrow> series" where
  "record_queue_length_ws env queue_list len =
     (if queue_list = [] \<or> snd (last queue_list) \<noteq> len
      then queue_list @ [(now env, len)]
      else queue_list)"

text \<open>
  \<^verbatim>\<open>StatisticsCollector.record_queue_length\<close> of \<^verbatim>\<open>PySimWOAssemblerWorks.py\<close>:
  \<^verbatim>\<open>if is_cam_queue and length > 0: length = math.ceil(length / BATCH_SIZE)\<close>.
\<close>

definition record_queue_length_works ::
  "environment \<Rightarrow> series \<Rightarrow> waiting \<Rightarrow> bool \<Rightarrow> series" where
  "record_queue_length_works env queue_list waiting_jobs_list is_cam_queue =
     (let len0 = int (length waiting_jobs_list);
          len = (if is_cam_queue \<and> len0 > 0
                 then \<lceil>real_of_int len0 / real_of_int BATCH_SIZE\<rceil>
                 else len0)
      in if queue_list = [] \<or> snd (last queue_list) \<noteq> len
         then queue_list @ [(now env, len)]
         else queue_list)"

text \<open>
  \<^verbatim>\<open>StatisticsCollector.record_queue_length\<close> of \<^verbatim>\<open>pyhtonsimulationWOAWGraph.py\<close>:
  \<^verbatim>\<open>if is_cam_queue: length = math.ceil(length / BATCH_SIZE) if length > 0 else 0\<close>.
\<close>

definition record_queue_length_graph ::
  "environment \<Rightarrow> series \<Rightarrow> waiting \<Rightarrow> bool \<Rightarrow> series" where
  "record_queue_length_graph env queue_list waiting_jobs_list is_cam_queue =
     (let len0 = int (length waiting_jobs_list);
          len = (if is_cam_queue
                 then (if len0 > 0 then \<lceil>real_of_int len0 / real_of_int BATCH_SIZE\<rceil> else 0)
                 else len0)
      in if queue_list = [] \<or> snd (last queue_list) \<noteq> len
         then queue_list @ [(now env, len)]
         else queue_list)"

text \<open>
  \<^verbatim>\<open>StatisticsCollector.calculate_time_weighted_average\<close>, the same in the three variants
  that have it. The \<^verbatim>\<open>for i in range(len(data_list) - 1)\<close> loop is the fold over the index
  list; every index it reads is in range.
\<close>

definition area_step :: "series \<Rightarrow> nat \<Rightarrow> real \<Rightarrow> real" where
  "area_step data_list i total_area =
     (let time_start = fst (data_list ! i);
          val = snd (data_list ! i);
          time_end = fst (data_list ! (i + 1))
      in total_area + real_of_int val * (time_end - time_start))"

definition calculate_time_weighted_average :: "environment \<Rightarrow> series \<Rightarrow> real" where
  "calculate_time_weighted_average env data_list =
     (if length data_list \<le> 1 then 0
      else
        (let total_time = now env;
             total_area = fold (area_step data_list) [0 ..< length data_list - 1] 0;
             last_value = snd (last data_list);
             last_time = fst (last data_list);
             total_area2 = total_area + real_of_int last_value * (total_time - last_time)
         in if total_time > 0 then total_area2 / total_time else 0))"

text \<open>
  The expression of \<^verbatim>\<open>StatisticsCollector.report\<close> in the two lossy variants,
  \<^verbatim>\<open>math.ceil(queo_in_queue_jobs / BATCH_SIZE) if queo_in_queue_jobs > 0 else 0\<close>, for a
  lane with \<open>n\<close> waiting jobs.
\<close>

definition blocks :: "nat \<Rightarrow> int" where
  "blocks n = (if n = 0 then 0 else \<lceil>real n / real_of_int BATCH_SIZE\<rceil>)"

section \<open>The statistics collector\<close>

text \<open>
  The fields that \<^verbatim>\<open>StatisticsCollector.__init__\<close> assigns in all three variants that have
  the class.
\<close>

record stats_core =
  jobs_generated :: int
  jobs_terminated :: int
  priority_1_count :: int
  mac_wait_times :: "real list"
  cam_wait_times :: "real list"
  system_times :: "real list"
  queue_mac_length :: series

text \<open>The further fields of \<^verbatim>\<open>pyhtonsimulationwithstatistics.py\<close>.\<close>

record stats_ws = stats_core +
  queue_cam_o_length :: series
  queue_cam_t_length :: series
  assembled_batches :: int

definition StatisticsCollector_ws :: stats_ws where
  "StatisticsCollector_ws =
     \<lparr>jobs_generated = 0, jobs_terminated = 0, priority_1_count = 0,
      mac_wait_times = [], cam_wait_times = [], system_times = [],
      queue_mac_length = [(0, 0)],
      queue_cam_o_length = [(0, 0)], queue_cam_t_length = [(0, 0)],
      assembled_batches = 0\<rparr>"

text \<open>
  The further fields of the two lossy variants. \<open>mac_usage\<close> and \<open>cam_usage\<close> exist in
  \<^verbatim>\<open>pyhtonsimulationWOAWGraph.py\<close> only; \<^verbatim>\<open>PySimWOAssemblerWorks.py\<close> neither reads nor writes
  them. \<open>assembled_batches_attr\<close> is the attribute \<^verbatim>\<open>assembled_batches\<close>, which
  \<^verbatim>\<open>__init__\<close> of these variants does not assign: \<open>None\<close> is the unassigned attribute.
\<close>

record stats_lossy = stats_core +
  queo_wait_times :: "real list"
  quet_wait_times :: "real list"
  queue_queo_length :: series
  queue_quet_length :: series
  queo_wait_list :: waiting
  quet_wait_list :: waiting
  mac_usage :: series
  cam_usage :: series
  assembled_batches_attr :: "int option"

definition StatisticsCollector_lossy :: stats_lossy where
  "StatisticsCollector_lossy =
     \<lparr>jobs_generated = 0, jobs_terminated = 0, priority_1_count = 0,
      mac_wait_times = [], cam_wait_times = [], system_times = [],
      queue_mac_length = [(0, 0)],
      queo_wait_times = [], quet_wait_times = [],
      queue_queo_length = [(0, 0)], queue_quet_length = [(0, 0)],
      queo_wait_list = [], quet_wait_list = [],
      mac_usage = [(0, 0)], cam_usage = [(0, 0)],
      assembled_batches_attr = None\<rparr>"

section \<open>The job generator\<close>

definition max_jobs :: int where "max_jobs = 10000"

text \<open>
  \<^verbatim>\<open>job_generator\<close> of the three variants with statistics, whose loop bodies are the same.
  The head of the loop, up to \<^verbatim>\<open>yield env.timeout(time_to_next)\<close>: \<open>None\<close> when the
  \<^verbatim>\<open>while\<close> condition fails.
\<close>

definition job_generator_head ::
  "int \<Rightarrow> 'a stats_core_scheme \<Rightarrow> (int \<times> 'a stats_core_scheme) option" where
  "job_generator_head job_id stats =
     (if job_id < max_jobs
      then Some (job_id + 1, stats\<lparr>jobs_generated := jobs_generated stats + 1\<rparr>)
      else None)"

text \<open>
  The rest of the body, after the timeout: \<open>u\<close> is the value of \<^verbatim>\<open>random.random()\<close>; the
  result is the priority handed to the new \<^verbatim>\<open>job_process\<close>.
\<close>

definition job_generator_priority ::
  "real \<Rightarrow> 'a stats_core_scheme \<Rightarrow> int \<times> 'a stats_core_scheme" where
  "job_generator_priority u stats =
     (if u \<le> 0.1
      then (1, stats\<lparr>priority_1_count := priority_1_count stats + 1\<rparr>)
      else (0, stats))"

text \<open>
  The whole loop. The list holds the draws of the iterations whose timeout elapsed before
  the run stopped; the run stops while the generator waits in the timeout of one further
  iteration, whose head has been executed. The result lists the processes started, as
  \<open>(job_id, priority)\<close>.
\<close>

fun job_generator ::
  "real list \<Rightarrow> int \<Rightarrow> 'a stats_core_scheme \<Rightarrow> (int \<times> int) list \<times> 'a stats_core_scheme" where
  "job_generator [] job_id stats =
     (case job_generator_head job_id stats of
        None \<Rightarrow> ([], stats)
      | Some (job_id1, stats1) \<Rightarrow> ([], stats1))"
| "job_generator (u # us) job_id stats =
     (case job_generator_head job_id stats of
        None \<Rightarrow> ([], stats)
      | Some (job_id1, stats1) \<Rightarrow>
          (let (priority, stats2) = job_generator_priority u stats1;
               (jobs, stats3) = job_generator us job_id1 stats2
           in ((job_id1, priority) # jobs, stats3)))"

text \<open>
  \<^verbatim>\<open>job_generator\<close> of \<^verbatim>\<open>pythonversion.py\<close>, which has no statistics:
  \<^verbatim>\<open>if random.random() < 0.9: priority = 1 else: priority = 0\<close>.
\<close>

definition job_generator_priority_v0 :: "real \<Rightarrow> int" where
  "job_generator_priority_v0 u = (if u < 0.9 then 1 else 0)"

fun job_generator_v0 :: "real list \<Rightarrow> int \<Rightarrow> (int \<times> int) list" where
  "job_generator_v0 [] job_id = []"
| "job_generator_v0 (u # us) job_id =
     (if job_id < max_jobs
      then (job_id + 1, job_generator_priority_v0 u) # job_generator_v0 us (job_id + 1)
      else [])"

section \<open>The job process of the lossy variants\<close>

text \<open>
  The module counters \<^verbatim>\<open>ASSEMBLEQUEO\<close> and \<^verbatim>\<open>ASSEMBLEQUET\<close> and the statistics collector:
  the state that \<^verbatim>\<open>job_process\<close> of \<^verbatim>\<open>PySimWOAssemblerWorks.py\<close> and of
  \<^verbatim>\<open>pyhtonsimulationWOAWGraph.py\<close> reads and writes.
\<close>

record world =
  ASSEMBLEQUEO :: int
  ASSEMBLEQUET :: int
  collector :: stats_lossy

definition module_start :: world where
  "module_start = \<lparr>ASSEMBLEQUEO = 0, ASSEMBLEQUET = 0, collector = StatisticsCollector_lossy\<rparr>"

datatype lane = Quet | Queo

text \<open>
  \<^verbatim>\<open>job_process\<close> is a generator: it runs from one \<^verbatim>\<open>yield\<close> to the next without
  interruption. Each function below is one such piece, applied to the clock at which the
  process is resumed and to the values it draws.

  How the piece that follows the stage-A service ends: the process either yields its
  \<^verbatim>\<open>cam.request(priority=0)\<close> (for the lane, with the value of its local \<^verbatim>\<open>quet_start_time\<close>
  or \<^verbatim>\<open>queo_start_time\<close>, the clock of that piece), or it reaches the end of the function
  and is over.
\<close>

datatype route_result = RequestsCam lane real | Leaves

text \<open>Lines 263 to 270 of \<^verbatim>\<open>pyhtonsimulationWOAWGraph.py\<close>: up to \<^verbatim>\<open>yield req\<close>.\<close>

definition job_process_arrive_graph :: "environment \<Rightarrow> waiting \<Rightarrow> world \<Rightarrow> world" where
  "job_process_arrive_graph env mac_queue w =
     (let s = collector w
      in w\<lparr>collector := s\<lparr>queue_mac_length :=
           record_queue_length_graph env (queue_mac_length s) mac_queue False\<rparr>\<rparr>)"

text \<open>Lines 272 to 275: from the grant of stage A to the service timeout.\<close>

definition job_process_mac_granted_graph ::
  "environment \<Rightarrow> real \<Rightarrow> waiting \<Rightarrow> world \<Rightarrow> world" where
  "job_process_mac_granted_graph env mac_wait_start mac_queue w =
     (let s = collector w;
          s1 = s\<lparr>mac_wait_times := mac_wait_times s @ [now env - mac_wait_start]\<rparr>;
          s2 = s1\<lparr>queue_mac_length :=
                  record_queue_length_graph env (queue_mac_length s1) mac_queue False\<rparr>
      in w\<lparr>collector := s2\<rparr>)"

text \<open>
  Lines 277 and 278, the same in all variants: the extra delay after the service, if the
  draw \<open>u\<close> asks for one (\<open>z\<close> is the normal variate).
\<close>

definition job_process_error_delay :: "real \<Rightarrow> real \<Rightarrow> real option" where
  "job_process_error_delay u z =
     (if u \<ge> 0.99
      then Some (normal_dist ADVANCE_SERVICE_ERR_MEAN ADVANCE_SERVICE_ERR_DEV z)
      else None)"

text \<open>The stage-B service delay (line 307), the same in all variants.\<close>

definition job_process_cam_delay :: "real \<Rightarrow> real" where
  "job_process_cam_delay z = normal_dist ADVANCE_CAM_MEAN ADVANCE_CAM_DEV z"

text \<open>
  Lines 282 to 298 and 315 to 329: from the release of stage A to the request of stage B
  or to the end of the process. \<open>u\<close> is the value of \<^verbatim>\<open>random.random()\<close> in
  \<^verbatim>\<open>if random.random() < 0.5\<close>.
\<close>

definition job_process_route_graph ::
  "environment \<Rightarrow> real \<Rightarrow> int \<Rightarrow> world \<Rightarrow> route_result \<times> world" where
  "job_process_route_graph env u job_id w =
     (if u < 0.5 then
        (let w1 = w\<lparr>ASSEMBLEQUET := ASSEMBLEQUET w + 1\<rparr>
         in if ASSEMBLEQUET w1 = BATCH_SIZE then
              (let w2 = w1\<lparr>ASSEMBLEQUET := 0\<rparr>;
                   s = collector w2;
                   s1 = s\<lparr>quet_wait_list := quet_wait_list s @ [job_id]\<rparr>;
                   quet_start_time = now env;
                   s2 = s1\<lparr>queue_quet_length :=
                           record_queue_length_graph env (queue_quet_length s1)
                             (quet_wait_list s1) True\<rparr>
               in (RequestsCam Quet quet_start_time, w2\<lparr>collector := s2\<rparr>))
            else (Leaves, w1))
      else
        (let w1 = w\<lparr>ASSEMBLEQUEO := ASSEMBLEQUEO w + 1\<rparr>
         in if ASSEMBLEQUEO w1 = BATCH_SIZE then
              (let w2 = w1\<lparr>ASSEMBLEQUEO := 0\<rparr>;
                   s = collector w2;
                   s1 = s\<lparr>queo_wait_list := queo_wait_list s @ [job_id]\<rparr>;
                   quet_start_time = now env;
                   s2 = s1\<lparr>queue_queo_length :=
                           record_queue_length_graph env (queue_queo_length s1)
                             (queo_wait_list s1) True\<rparr>
               in (RequestsCam Queo quet_start_time, w2\<lparr>collector := s2\<rparr>))
            else (Leaves, w1)))"

text \<open>
  Lines 301 to 307 and 332 to 338: from the grant of stage B to the service timeout.
  \<^verbatim>\<open>list.remove\<close> raises \<^verbatim>\<open>ValueError\<close> when the job is not in the list. In the lane
  \<open>Queo\<close> this variant measures the wait from \<^verbatim>\<open>cam_wait_start\<close>.
\<close>

definition job_process_cam_granted_graph ::
  "lane \<Rightarrow> environment \<Rightarrow> real \<Rightarrow> real \<Rightarrow> int \<Rightarrow> world \<Rightarrow> py_error + world" where
  "job_process_cam_granted_graph l env quet_start_time cam_wait_start job_id w =
     (let s = collector w
      in case l of
           Quet \<Rightarrow>
             (let s1 = s\<lparr>quet_wait_times := quet_wait_times s @ [now env - quet_start_time]\<rparr>
              in if job_id \<notin> set (quet_wait_list s1) then Inl ValueError
                 else
                   (let s2 = s1\<lparr>quet_wait_list := remove1 job_id (quet_wait_list s1)\<rparr>;
                        s3 = s2\<lparr>cam_wait_times := cam_wait_times s2 @ [now env - cam_wait_start]\<rparr>;
                        s4 = s3\<lparr>queue_quet_length :=
                                record_queue_length_graph env (queue_quet_length s3)
                                  (quet_wait_list s3) True\<rparr>
                    in Inr (w\<lparr>collector := s4\<rparr>)))
         | Queo \<Rightarrow>
             (let s1 = s\<lparr>queo_wait_times := queo_wait_times s @ [now env - cam_wait_start]\<rparr>
              in if job_id \<notin> set (queo_wait_list s1) then Inl ValueError
                 else
                   (let s2 = s1\<lparr>queo_wait_list := remove1 job_id (queo_wait_list s1)\<rparr>;
                        s3 = s2\<lparr>cam_wait_times := cam_wait_times s2 @ [now env - cam_wait_start]\<rparr>;
                        s4 = s3\<lparr>queue_queo_length :=
                                record_queue_length_graph env (queue_queo_length s3)
                                  (queo_wait_list s3) True\<rparr>
                    in Inr (w\<lparr>collector := s4\<rparr>))))"

text \<open>
  Lines 309 to 312 and 339 to 342, the same in both lossy variants: after the stage-B
  service the process counts itself as terminated and ends.
\<close>

definition job_process_terminate :: "environment \<Rightarrow> real \<Rightarrow> world \<Rightarrow> world" where
  "job_process_terminate env arrival_time w =
     (let s = collector w;
          finish_time = now env;
          s1 = s\<lparr>jobs_terminated := jobs_terminated s + 1\<rparr>;
          s2 = s1\<lparr>system_times := system_times s1 @ [finish_time - arrival_time]\<rparr>
      in w\<lparr>collector := s2\<rparr>)"

text \<open>
  One round of \<^verbatim>\<open>StatisticsCollector.monitor_utilization\<close> (the graph variant only), for the
  values of \<^verbatim>\<open>mac.count\<close> and \<^verbatim>\<open>cam.count\<close>.
\<close>

definition monitor_utilization :: "environment \<Rightarrow> int \<Rightarrow> int \<Rightarrow> world \<Rightarrow> world" where
  "monitor_utilization env mac_count cam_count w =
     (let s = collector w;
          s1 = (if mac_usage s = [] \<or> snd (last (mac_usage s)) \<noteq> mac_count
                then s\<lparr>mac_usage := mac_usage s @ [(now env, mac_count)]\<rparr> else s);
          s2 = (if cam_usage s1 = [] \<or> snd (last (cam_usage s1)) \<noteq> cam_count
                then s1\<lparr>cam_usage := cam_usage s1 @ [(now env, cam_count)]\<rparr> else s1)
      in w\<lparr>collector := s2\<rparr>)"

text \<open>The same pieces of \<^verbatim>\<open>job_process\<close> in \<^verbatim>\<open>PySimWOAssemblerWorks.py\<close> (lines 186 to 264).\<close>

definition job_process_arrive_works :: "environment \<Rightarrow> waiting \<Rightarrow> world \<Rightarrow> world" where
  "job_process_arrive_works env mac_queue w =
     (let s = collector w
      in w\<lparr>collector := s\<lparr>queue_mac_length :=
           record_queue_length_works env (queue_mac_length s) mac_queue False\<rparr>\<rparr>)"

definition job_process_mac_granted_works ::
  "environment \<Rightarrow> real \<Rightarrow> waiting \<Rightarrow> world \<Rightarrow> world" where
  "job_process_mac_granted_works env mac_wait_start mac_queue w =
     (let s = collector w;
          s1 = s\<lparr>mac_wait_times := mac_wait_times s @ [now env - mac_wait_start]\<rparr>;
          s2 = s1\<lparr>queue_mac_length :=
                  record_queue_length_works env (queue_mac_length s1) mac_queue False\<rparr>
      in w\<lparr>collector := s2\<rparr>)"

text \<open>Here the counters are compared with the literal 200.\<close>

definition job_process_route_works ::
  "environment \<Rightarrow> real \<Rightarrow> int \<Rightarrow> world \<Rightarrow> route_result \<times> world" where
  "job_process_route_works env u job_id w =
     (if u < 0.5 then
        (let w1 = w\<lparr>ASSEMBLEQUET := ASSEMBLEQUET w + 1\<rparr>
         in if ASSEMBLEQUET w1 = 200 then
              (let w2 = w1\<lparr>ASSEMBLEQUET := 0\<rparr>;
                   s = collector w2;
                   s1 = s\<lparr>quet_wait_list := quet_wait_list s @ [job_id]\<rparr>;
                   quet_start_time = now env;
                   s2 = s1\<lparr>queue_quet_length :=
                           record_queue_length_works env (queue_quet_length s1)
                             (quet_wait_list s1) True\<rparr>
               in (RequestsCam Quet quet_start_time, w2\<lparr>collector := s2\<rparr>))
            else (Leaves, w1))
      else
        (let w1 = w\<lparr>ASSEMBLEQUEO := ASSEMBLEQUEO w + 1\<rparr>
         in if ASSEMBLEQUEO w1 = 200 then
              (let w2 = w1\<lparr>ASSEMBLEQUEO := 0\<rparr>;
                   s = collector w2;
                   s1 = s\<lparr>queo_wait_list := queo_wait_list s @ [job_id]\<rparr>;
                   queo_start_time = now env;
                   s2 = s1\<lparr>queue_queo_length :=
                           record_queue_length_works env (queue_queo_length s1)
                             (queo_wait_list s1) True\<rparr>
               in (RequestsCam Queo queo_start_time, w2\<lparr>collector := s2\<rparr>))
            else (Leaves, w1)))"

text \<open>In the lane \<open>Queo\<close> this variant measures the wait from \<^verbatim>\<open>queo_start_time\<close>.\<close>

definition job_process_cam_granted_works ::
  "lane \<Rightarrow> environment \<Rightarrow> real \<Rightarrow> real \<Rightarrow> int \<Rightarrow> world \<Rightarrow> py_error + world" where
  "job_process_cam_granted_works l env start_time cam_wait_start job_id w =
     (let s = collector w
      in case l of
           Quet \<Rightarrow>
             (let s1 = s\<lparr>quet_wait_times := quet_wait_times s @ [now env - start_time]\<rparr>
              in if job_id \<notin> set (quet_wait_list s1) then Inl ValueError
                 else
                   (let s2 = s1\<lparr>quet_wait_list := remove1 job_id (quet_wait_list s1)\<rparr>;
                        s3 = s2\<lparr>cam_wait_times := cam_wait_times s2 @ [now env - cam_wait_start]\<rparr>;
                        s4 = s3\<lparr>queue_quet_length :=
                                record_queue_length_works env (queue_quet_length s3)
                                  (quet_wait_list s3) True\<rparr>
                    in Inr (w\<lparr>collector := s4\<rparr>)))
         | Queo \<Rightarrow>
             (let s1 = s\<lparr>queo_wait_times := queo_wait_times s @ [now env - start_time]\<rparr>
              in if job_id \<notin> set (queo_wait_list s1) then Inl ValueError
                 else
                   (let s2 = s1\<lparr>queo_wait_list := remove1 job_id (queo_wait_list s1)\<rparr>;
                        s3 = s2\<lparr>cam_wait_times := cam_wait_times s2 @ [now env - cam_wait_start]\<rparr>;
                        s4 = s3\<lparr>queue_queo_length :=
                                record_queue_length_works env (queue_queo_length s3)
                                  (queo_wait_list s3) True\<rparr>
                    in Inr (w\<lparr>collector := s4\<rparr>))))"

text \<open>
  A sequence of processes reaching the routing piece, in the order in which the scheduler
  resumes them: each with the clock of its resumption, its lane draw and its job
  identifier. The result lists how each of them left the piece.
\<close>

type_synonym arrival = "environment \<times> real \<times> int"

fun route_arrivals_graph :: "arrival list \<Rightarrow> world \<Rightarrow> route_result list \<times> world" where
  "route_arrivals_graph [] w = ([], w)"
| "route_arrivals_graph ((env, u, job_id) # rest) w =
     (let (r, w1) = job_process_route_graph env u job_id w;
          (rs, w2) = route_arrivals_graph rest w1
      in (r # rs, w2))"

fun route_arrivals_works :: "arrival list \<Rightarrow> world \<Rightarrow> route_result list \<times> world" where
  "route_arrivals_works [] w = ([], w)"
| "route_arrivals_works ((env, u, job_id) # rest) w =
     (let (r, w1) = job_process_route_works env u job_id w;
          (rs, w2) = route_arrivals_works rest w1
      in (r # rs, w2))"

text \<open>The lane that the draw selects, and the module counter of a lane.\<close>

definition lane_of_draw :: "real \<Rightarrow> lane" where
  "lane_of_draw u = (if u < 0.5 then Quet else Queo)"

definition lane_counter :: "lane \<Rightarrow> world \<Rightarrow> int" where
  "lane_counter l w = (case l of Quet \<Rightarrow> ASSEMBLEQUET w | Queo \<Rightarrow> ASSEMBLEQUEO w)"

text \<open>How many of the first \<open>n\<close> arrivals are routed to lane \<open>l\<close>.\<close>

definition lane_arrivals :: "lane \<Rightarrow> nat \<Rightarrow> arrival list \<Rightarrow> nat" where
  "lane_arrivals l n arrivals =
     length (filter (\<lambda>a. lane_of_draw (fst (snd a)) = l) (take n arrivals))"

text \<open>
  The states of the module that a run can pass through: any interleaving of the pieces of
  the generator, of the job processes and of the utilisation monitor, with any clock
  values and draws.
\<close>

datatype variant = Works | Graph

inductive reachable :: "variant \<Rightarrow> world \<Rightarrow> bool" where
  start: "reachable v module_start"
| generator_head:
    "reachable v w \<Longrightarrow> job_generator_head job_id (collector w) = Some (job_id1, s) \<Longrightarrow>
     reachable v (w\<lparr>collector := s\<rparr>)"
| generator_priority:
    "reachable v w \<Longrightarrow> job_generator_priority u (collector w) = (priority, s) \<Longrightarrow>
     reachable v (w\<lparr>collector := s\<rparr>)"
| arrive_graph:
    "reachable Graph w \<Longrightarrow> reachable Graph (job_process_arrive_graph env mac_queue w)"
| mac_granted_graph:
    "reachable Graph w \<Longrightarrow>
     reachable Graph (job_process_mac_granted_graph env mac_wait_start mac_queue w)"
| route_graph:
    "reachable Graph w \<Longrightarrow> job_process_route_graph env u job_id w = (r, w1) \<Longrightarrow>
     reachable Graph w1"
| cam_granted_graph:
    "reachable Graph w \<Longrightarrow>
     job_process_cam_granted_graph l env start_time cam_wait_start job_id w = Inr w1 \<Longrightarrow>
     reachable Graph w1"
| monitor:
    "reachable Graph w \<Longrightarrow> reachable Graph (monitor_utilization env mac_count cam_count w)"
| arrive_works:
    "reachable Works w \<Longrightarrow> reachable Works (job_process_arrive_works env mac_queue w)"
| mac_granted_works:
    "reachable Works w \<Longrightarrow>
     reachable Works (job_process_mac_granted_works env mac_wait_start mac_queue w)"
| route_works:
    "reachable Works w \<Longrightarrow> job_process_route_works env u job_id w = (r, w1) \<Longrightarrow>
     reachable Works w1"
| cam_granted_works:
    "reachable Works w \<Longrightarrow>
     job_process_cam_granted_works l env start_time cam_wait_start job_id w = Inr w1 \<Longrightarrow>
     reachable Works w1"
| terminate:
    "reachable v w \<Longrightarrow> reachable v (job_process_terminate env arrival_time w)"

text \<open>Both module counters are at least 0 and below \<open>BATCH_SIZE\<close>.\<close>

definition counters_ok :: "world \<Rightarrow> bool" where
  "counters_ok w \<longleftrightarrow>
     0 \<le> ASSEMBLEQUEO w \<and> ASSEMBLEQUEO w < BATCH_SIZE
     \<and> 0 \<le> ASSEMBLEQUET w \<and> ASSEMBLEQUET w < BATCH_SIZE"

section \<open>The release-all batch assembler\<close>

text \<open>
  \<^verbatim>\<open>BatchAssembler\<close> of \<^verbatim>\<open>pyhtonsimulationwithstatistics.py\<close> and of
  \<^verbatim>\<open>PySimWOAssemblerWorks.py\<close>. The constructor makes the first release event.
\<close>

record assembler =
  name :: string
  batch_size :: int
  waiting_jobs :: waiting
  batch_count :: int
  release_event :: nat

definition BatchAssembler :: "environment \<Rightarrow> string \<Rightarrow> int \<Rightarrow> assembler \<times> environment" where
  "BatchAssembler env nm bs =
     (let (ev, env1) = event env
      in (\<lparr>name = nm, batch_size = bs, waiting_jobs = [], batch_count = 0,
           release_event = ev\<rparr>, env1))"

text \<open>
  \<^verbatim>\<open>BatchAssembler.assemble\<close> of \<^verbatim>\<open>pyhtonsimulationwithstatistics.py\<close> (lines 39 to 57). The
  first component of the result is the event that the method returns and that the calling
  process yields: \<^verbatim>\<open>return self.release_event\<close> reads the field after the branch has
  replaced it.
\<close>

definition assemble_ws ::
  "int \<Rightarrow> assembler \<Rightarrow> environment \<Rightarrow> py_error + (nat \<times> assembler \<times> environment)" where
  "assemble_ws job_id a env =
     (let a1 = a\<lparr>batch_count := batch_count a + 1\<rparr>;
          a2 = a1\<lparr>waiting_jobs := waiting_jobs a1 @ [job_id]\<rparr>
      in if batch_count a2 \<ge> batch_size a2 then
           (let release = release_event a2;
                a3 = a2\<lparr>batch_count := 0\<rparr>;
                (ev, env1) = event env;
                a4 = a3\<lparr>release_event := ev\<rparr>
            in case succeed release env1 of
                 Inl e \<Rightarrow> Inl e
               | Inr env2 \<Rightarrow> Inr (release_event a4, a4, env2))
         else Inr (release_event a2, a2, env))"

text \<open>
  What \<^verbatim>\<open>job_process\<close> of that variant does when it is resumed after
  \<^verbatim>\<open>yield quet_assembler.assemble(job_id)\<close> (lines 190 to 199, and 212 to 221 for the other
  lane), up to the request of stage B. \<open>a\<close> is the assembler of the lane as it is at the
  resumption, \<open>cam_queue\<close> the value of \<^verbatim>\<open>cam.queue\<close>.
\<close>

definition job_process_released_ws ::
  "lane \<Rightarrow> environment \<Rightarrow> waiting \<Rightarrow> assembler \<Rightarrow> stats_ws \<Rightarrow> stats_ws" where
  "job_process_released_ws l env cam_queue a stats =
     (let stats1 = (if batch_count a = 0
                    then stats\<lparr>assembled_batches := assembled_batches stats + 1\<rparr>
                    else stats)
      in case l of
           Quet \<Rightarrow> stats1\<lparr>queue_cam_t_length :=
                     record_queue_length_ws env (queue_cam_t_length stats1)
                       (int (length cam_queue))\<rparr>
         | Queo \<Rightarrow> stats1\<lparr>queue_cam_o_length :=
                     record_queue_length_ws env (queue_cam_o_length stats1)
                       (int (length cam_queue))\<rparr>)"

text \<open>
  \<^verbatim>\<open>BatchAssembler.assemble\<close> of \<^verbatim>\<open>PySimWOAssemblerWorks.py\<close> (lines 42 to 58), which counts
  the batch itself: \<^verbatim>\<open>self.stats.assembled_batches += 1\<close> reads the attribute first and
  raises \<^verbatim>\<open>AttributeError\<close> when it has not been assigned.
\<close>

definition assemble_works ::
  "int \<Rightarrow> assembler \<Rightarrow> stats_lossy \<Rightarrow> environment \<Rightarrow>
   py_error + (nat \<times> assembler \<times> stats_lossy \<times> environment)" where
  "assemble_works job_id a stats env =
     (let a1 = a\<lparr>batch_count := batch_count a + 1\<rparr>;
          a2 = a1\<lparr>waiting_jobs := waiting_jobs a1 @ [job_id]\<rparr>
      in if batch_count a2 \<ge> batch_size a2 then
           (let release = release_event a2
            in case assembled_batches_attr stats of
                 None \<Rightarrow> Inl AttributeError
               | Some n \<Rightarrow>
                   (let stats1 = stats\<lparr>assembled_batches_attr := Some (n + 1)\<rparr>;
                        a3 = a2\<lparr>batch_count := 0\<rparr>;
                        (ev, env1) = event env;
                        a4 = a3\<lparr>release_event := ev\<rparr>
                    in case succeed release env1 of
                         Inl e \<Rightarrow> Inl e
                       | Inr env2 \<Rightarrow> Inr (release_event a4, a4, stats1, env2)))
         else Inr (release_event a2, a2, stats, env))"

text \<open>
  A sequence of calls of \<^verbatim>\<open>assemble\<close> on one assembler, each at its clock value and for
  its job. The result lists, for every job, the event it waits for.
\<close>

fun assemble_arrivals_ws ::
  "(real \<times> int) list \<Rightarrow> assembler \<Rightarrow> environment \<Rightarrow>
   py_error + ((int \<times> nat) list \<times> assembler \<times> environment)" where
  "assemble_arrivals_ws [] a env = Inr ([], a, env)"
| "assemble_arrivals_ws ((t, job_id) # rest) a env =
     (case assemble_ws job_id a (at_time t env) of
        Inl e \<Rightarrow> Inl e
      | Inr (ev, a1, env1) \<Rightarrow>
          (case assemble_arrivals_ws rest a1 env1 of
             Inl e \<Rightarrow> Inl e
           | Inr (waits, a2, env2) \<Rightarrow> Inr ((job_id, ev) # waits, a2, env2)))"

fun assemble_arrivals_works ::
  "(real \<times> int) list \<Rightarrow> assembler \<Rightarrow> stats_lossy \<Rightarrow> environment \<Rightarrow>
   py_error + ((int \<times> nat) list \<times> assembler \<times> stats_lossy \<times> environment)" where
  "assemble_arrivals_works [] a stats env = Inr ([], a, stats, env)"
| "assemble_arrivals_works ((t, job_id) # rest) a stats env =
     (case assemble_works job_id a stats (at_time t env) of
        Inl e \<Rightarrow> Inl e
      | Inr (ev, a1, stats1, env1) \<Rightarrow>
          (case assemble_arrivals_works rest a1 stats1 env1 of
             Inl e \<Rightarrow> Inl e
           | Inr (waits, a2, stats2, env2) \<Rightarrow> Inr ((job_id, ev) # waits, a2, stats2, env2)))"

text \<open>
  The clock value at which a process waiting for event \<open>ev\<close> is resumed, if the event has
  succeeded; the jobs that wait for \<open>ev\<close>; and the resumption of the processes released
  by one event, one after the other, each with the \<^verbatim>\<open>cam.queue\<close> it sees.
\<close>

definition resumed_at :: "environment \<Rightarrow> nat \<Rightarrow> real option" where
  "resumed_at env ev = map_of (succeeded env) ev"

definition waiters :: "(int \<times> nat) list \<Rightarrow> nat \<Rightarrow> int list" where
  "waiters waits ev = map fst (filter (\<lambda>jw. snd jw = ev) waits)"

fun resume_released_ws ::
  "lane \<Rightarrow> environment \<Rightarrow> assembler \<Rightarrow> waiting list \<Rightarrow> stats_ws \<Rightarrow> stats_ws" where
  "resume_released_ws l env a [] stats = stats"
| "resume_released_ws l env a (cam_queue # rest) stats =
     resume_released_ws l env a rest (job_process_released_ws l env cam_queue a stats)"

text \<open>An environment in which every succeeded event has been created.\<close>

definition events_created :: "environment \<Rightarrow> bool" where
  "events_created env \<longleftrightarrow> list_all (\<lambda>et. fst et < next_event env) (succeeded env)"

section \<open>Setting up a run\<close>

text \<open>
  \<^verbatim>\<open>run_simulation\<close> reads the module constants \<^verbatim>\<open>MAC_CAPACITY\<close>, \<^verbatim>\<open>CAM_CAPACITY\<close> and
  \<^verbatim>\<open>BATCH_SIZE\<close> and takes \<^verbatim>\<open>until_time\<close>. Here the four values are the fields of a
  configuration, so that the set-up can be applied to other values than the constants.
\<close>

record config =
  cfg_mac_capacity :: int
  cfg_cam_capacity :: int
  cfg_batch_size :: int
  cfg_until_time :: real

text \<open>
  The two checks of the SimPy library on the path of the set-up: the constructor of a
  resource raises \<^verbatim>\<open>ValueError\<close> for a capacity that is not positive, and
  \<^verbatim>\<open>Environment.run(until=t)\<close> raises \<^verbatim>\<open>ValueError\<close> for a \<open>t\<close> that is not after the
  clock, before it executes any event.
\<close>

record resource =
  capacity :: int
  users :: waiting
  queue :: waiting

definition PriorityResource :: "int \<Rightarrow> py_error + resource" where
  "PriorityResource cap =
     (if cap \<le> 0 then Inl ValueError
      else Inr \<lparr>capacity = cap, users = [], queue = []\<rparr>)"

definition run_check :: "environment \<Rightarrow> real \<Rightarrow> py_error + unit" where
  "run_check env until = (if until \<le> now env then Inl ValueError else Inr ())"

text \<open>
  \<^verbatim>\<open>run_simulation\<close> of \<^verbatim>\<open>pyhtonsimulationwithstatistics.py\<close> (lines 261 to 285) up to the
  point where \<^verbatim>\<open>env.run\<close> starts to execute events: the objects it has built by then, or
  the exception raised before. \<^verbatim>\<open>env.process(job_generator(...))\<close> only schedules the
  generator: none of its code runs before the event loop does.
\<close>

record started_ws =
  ws_env :: environment
  ws_mac :: resource
  ws_cam :: resource
  ws_queo_assembler :: assembler
  ws_quet_assembler :: assembler
  ws_stats :: stats_ws

definition run_simulation_ws :: "config \<Rightarrow> py_error + started_ws" where
  "run_simulation_ws cfg =
     (let env = Environment
      in case PriorityResource (cfg_mac_capacity cfg) of
           Inl e \<Rightarrow> Inl e
         | Inr mac \<Rightarrow>
            (case PriorityResource (cfg_cam_capacity cfg) of
               Inl e \<Rightarrow> Inl e
             | Inr cam \<Rightarrow>
                (let (queo_assembler, env1) = BatchAssembler env ''queo'' (cfg_batch_size cfg);
                     (quet_assembler, env2) = BatchAssembler env1 ''quet'' (cfg_batch_size cfg);
                     stats = StatisticsCollector_ws
                 in case run_check env2 (cfg_until_time cfg) of
                      Inl e \<Rightarrow> Inl e
                    | Inr _ \<Rightarrow>
                        Inr \<lparr>ws_env = env2, ws_mac = mac, ws_cam = cam,
                             ws_queo_assembler = queo_assembler,
                             ws_quet_assembler = quet_assembler,
                             ws_stats = stats\<rparr>)))"

text \<open>The same of \<^verbatim>\<open>PySimWOAssemblerWorks.py\<close> (lines 293 to 315).\<close>

record started_works =
  works_env :: environment
  works_mac :: resource
  works_cam :: resource
  works_queo_assembler :: assembler
  works_quet_assembler :: assembler
  works_stats :: stats_lossy

definition run_simulation_works :: "config \<Rightarrow> py_error + started_works" where
  "run_simulation_works cfg =
     (let env = Environment
      in case PriorityResource (cfg_mac_capacity cfg) of
           Inl e \<Rightarrow> Inl e
         | Inr mac \<Rightarrow>
            (case PriorityResource (cfg_cam_capacity cfg) of
               Inl e \<Rightarrow> Inl e
             | Inr cam \<Rightarrow>
                (let stats = StatisticsCollector_lossy;
                     (queo_assembler, env1) = BatchAssembler env ''queo'' (cfg_batch_size cfg);
                     (quet_assembler, env2) = BatchAssembler env1 ''quet'' (cfg_batch_size cfg)
                 in case run_check env2 (cfg_until_time cfg) of
                      Inl e \<Rightarrow> Inl e
                    | Inr _ \<Rightarrow>
                        Inr \<lparr>works_env = env2, works_mac = mac, works_cam = cam,
                             works_queo_assembler = queo_assembler,
                             works_quet_assembler = quet_assembler,
                             works_stats = stats\<rparr>)))"

text \<open>The configuration of the source: the module constants and the given horizon.\<close>

definition source_config :: "real \<Rightarrow> config" where
  "source_config until_time =
     \<lparr>cfg_mac_capacity = MAC_CAPACITY, cfg_cam_capacity = CAM_CAPACITY,
      cfg_batch_size = BATCH_SIZE, cfg_until_time = until_time\<rparr>"

section \<open>Properties of the sampled delays\<close>

lemma gauss_floor_cases:
  "normal_dist mean stdev z = (if gauss mean stdev z < 0 then 0 else gauss mean stdev z)"
  by (simp add: normal_dist_def max_def)

text \<open>
  Claim C8. For every mean, standard deviation and variate, the delay returned by
  \<open>normal_dist\<close> is non-negative: a draw below zero is replaced by zero, any other draw is
  returned unchanged, and the function always returns a value (it has no error result).
  So both delays that \<open>job_process\<close> takes from it, the correction delay and the stage-B
  service delay, are non-negative.
\<close>

theorem normal_dist_nonneg:
  "0 \<le> normal_dist mean stdev z
   \<and> (gauss mean stdev z < 0 \<longrightarrow> normal_dist mean stdev z = 0)
   \<and> (0 \<le> gauss mean stdev z \<longrightarrow> normal_dist mean stdev z = gauss mean stdev z)
   \<and> 0 \<le> job_process_cam_delay z
   \<and> (job_process_error_delay u z = Some d \<longrightarrow> 0 \<le> d)"
  by (auto simp: gauss_floor_cases job_process_cam_delay_def job_process_error_delay_def
      split: if_splits)

theorem normal_dist_nonneg_witness:
  "gauss 15 2 (-8) < 0 \<and> normal_dist 15 2 (-8) = 0
   \<and> 0 \<le> gauss 15 2 1 \<and> normal_dist 15 2 1 = 17
   \<and> job_process_error_delay 0.995 (-8) = Some 0"
  using normal_dist_nonneg [of 15 2 "-8" "0.995" 0] normal_dist_nonneg [of 15 2 1 "0.995" 0]
  by (simp add: gauss_def job_process_error_delay_def ADVANCE_SERVICE_ERR_MEAN_def
      ADVANCE_SERVICE_ERR_DEV_def)

section \<open>Properties of the time series\<close>

lemma fold_area_sum:
  "fold (area_step xs) [0 ..< n] acc =
     acc + (\<Sum>i<n. real_of_int (snd (xs ! i)) * (fst (xs ! (i + 1)) - fst (xs ! i)))"
  by (induction n) (simp_all add: area_step_def)

lemma twa_short: "length data_list < 2 \<Longrightarrow> calculate_time_weighted_average env data_list = 0"
  by (simp add: calculate_time_weighted_average_def)

lemma twa_long:
  "2 \<le> length data_list \<Longrightarrow> 0 < now env \<Longrightarrow>
   calculate_time_weighted_average env data_list =
     ((\<Sum>i<length data_list - 1.
          real_of_int (snd (data_list ! i)) * (fst (data_list ! (i + 1)) - fst (data_list ! i)))
      + real_of_int (snd (last data_list)) * (now env - fst (last data_list))) / now env"
  by (simp add: calculate_time_weighted_average_def fold_area_sum Let_def)

lemma twa_example:
  "calculate_time_weighted_average (at_time 10 Environment) [(0, 0), (2, 3), (5, 1)] = 1.4"
  by (simp add: calculate_time_weighted_average_def area_step_def at_time_def
      Environment_def upt_rec)

text \<open>
  Claim C3. With the clock at 10, the time-weighted average of the step sequence
  \<open>[(0,0),(2,3),(5,1)]\<close> is \<open>(0*2 + 3*3 + 1*5)/10 = 1.4\<close>. In general, for a series of at
  least two samples and a positive clock, the function adds the area of every segment
  between consecutive samples and the area of the last value extended to the clock, and
  divides by the clock; for a series of fewer than two samples it returns 0.
\<close>

theorem time_weighted_average_correct:
  "calculate_time_weighted_average (at_time 10 Environment) [(0, 0), (2, 3), (5, 1)] = 1.4
   \<and> calculate_time_weighted_average (at_time 10 Environment) [(0, 0), (2, 3), (5, 1)]
       = (0 * 2 + 3 * 3 + 1 * 5) / 10
   \<and> (length data_list < 2 \<longrightarrow> calculate_time_weighted_average env data_list = 0)
   \<and> (2 \<le> length data_list \<and> 0 < now env \<longrightarrow>
        calculate_time_weighted_average env data_list =
          ((\<Sum>i<length data_list - 1.
              real_of_int (snd (data_list ! i))
                * (fst (data_list ! (i + 1)) - fst (data_list ! i)))
           + real_of_int (snd (last data_list)) * (now env - fst (last data_list)))
          / now env)"
  using twa_example twa_short [of data_list env] twa_long [of data_list env] by simp

theorem time_weighted_average_correct_witness:
  "calculate_time_weighted_average (at_time 10 Environment) [(0, 0)] = 0
   \<and> calculate_time_weighted_average (at_time 4 Environment) [(0, 0), (2, 3)]
       = (0 * (2 - 0) + 3 * (4 - 2)) / 4"
  using time_weighted_average_correct [of "[(0, 0)]" "at_time 10 Environment"]
    time_weighted_average_correct [of "[(0, 0), (2, 3)]" "at_time 4 Environment"]
  by (simp add: at_time_def Environment_def)

lemma record_ws_same:
  "queue_list \<noteq> [] \<Longrightarrow> snd (last queue_list) = len \<Longrightarrow>
   record_queue_length_ws env queue_list len = queue_list"
  by (simp add: record_queue_length_ws_def)

lemma record_ws_changed:
  "queue_list = [] \<or> snd (last queue_list) \<noteq> len \<Longrightarrow>
   record_queue_length_ws env queue_list len = queue_list @ [(now env, len)]"
  by (simp add: record_queue_length_ws_def)

lemma record_ws_last: "snd (last (record_queue_length_ws env q v)) = v"
  by (simp add: record_queue_length_ws_def)

lemma record_ws_nonempty: "record_queue_length_ws env q v \<noteq> []"
  by (simp add: record_queue_length_ws_def)

lemma record_ws_idem:
  "record_queue_length_ws env2 (record_queue_length_ws env q v) v
     = record_queue_length_ws env q v"
  by (rule record_ws_same) (simp_all add: record_ws_last record_ws_nonempty)

lemma record_ws_distinct_adj:
  "distinct_adj (map snd q) \<Longrightarrow> distinct_adj (map snd (record_queue_length_ws env q v))"
  by (auto simp: record_queue_length_ws_def distinct_adj_append_iff last_map)

lemma record_ws_foldl_distinct_adj:
  "distinct_adj (map snd q) \<Longrightarrow>
   distinct_adj (map snd (foldl (\<lambda>q (e, v). record_queue_length_ws e q v) q evs))"
  by (induction evs arbitrary: q) (auto simp: record_ws_distinct_adj)

lemma record_works_ws:
  "record_queue_length_works env q wl c =
   record_queue_length_ws env q (if c then blocks (length wl) else int (length wl))"
  by (simp add: record_queue_length_works_def record_queue_length_ws_def blocks_def Let_def)

lemma record_graph_ws:
  "record_queue_length_graph env q wl c =
   record_queue_length_ws env q (if c then blocks (length wl) else int (length wl))"
  by (simp add: record_queue_length_graph_def record_queue_length_ws_def blocks_def Let_def)

lemma record_works_graph:
  "record_queue_length_works env q wl c = record_queue_length_graph env q wl c"
  by (simp add: record_works_ws record_graph_ws)

lemma record_graph_same:
  "queue_list \<noteq> [] \<Longrightarrow>
   snd (last queue_list) =
     (if is_cam_queue
      then (if waiting_jobs_list = [] then 0
            else \<lceil>real (length waiting_jobs_list) / real_of_int BATCH_SIZE\<rceil>)
      else int (length waiting_jobs_list)) \<Longrightarrow>
   record_queue_length_graph env queue_list waiting_jobs_list is_cam_queue = queue_list"
  by (simp add: record_queue_length_graph_def Let_def split: if_splits)

lemma record_graph_changed:
  "queue_list = [] \<or>
   snd (last queue_list) \<noteq>
     (if is_cam_queue
      then (if waiting_jobs_list = [] then 0
            else \<lceil>real (length waiting_jobs_list) / real_of_int BATCH_SIZE\<rceil>)
      else int (length waiting_jobs_list)) \<Longrightarrow>
   record_queue_length_graph env queue_list waiting_jobs_list is_cam_queue =
     queue_list @
       [(now env,
         if is_cam_queue
         then (if waiting_jobs_list = [] then 0
               else \<lceil>real (length waiting_jobs_list) / real_of_int BATCH_SIZE\<rceil>)
         else int (length waiting_jobs_list))]"
  by (auto simp: record_queue_length_graph_def Let_def split: if_splits)

text \<open>
  Claim C6. Recording a value equal to the last recorded value of a non-empty series leaves
  the series unchanged; in every other case exactly the sample \<open>(now, value)\<close> is appended.
  Recording the same value a second time, at any clock value, changes nothing. A series in
  which no two consecutive samples share a value keeps that property under recording, so
  every series grown from the initial \<open>[(0, 0)]\<close> by recordings has it. The variant with a
  waiting list (is_cam_queue) does the same with the value it computes from the list, the
  number of waiting jobs or, with the flag, their number of blocks: it leaves a non-empty
  series whose last value is that value unchanged, and in every other case appends
  exactly the sample of the clock and that value.
\<close>

theorem record_queue_length_change_only:
  "(queue_list \<noteq> [] \<and> snd (last queue_list) = len \<longrightarrow>
      record_queue_length_ws env queue_list len = queue_list)
   \<and> (queue_list = [] \<or> snd (last queue_list) \<noteq> len \<longrightarrow>
      record_queue_length_ws env queue_list len = queue_list @ [(now env, len)])
   \<and> record_queue_length_ws env2 (record_queue_length_ws env queue_list len) len
       = record_queue_length_ws env queue_list len
   \<and> (distinct_adj (map snd queue_list) \<longrightarrow>
        distinct_adj (map snd (record_queue_length_ws env queue_list len)))
   \<and> distinct_adj (map snd (foldl (\<lambda>q (e, v). record_queue_length_ws e q v) [(0, 0)] evs))
   \<and> record_queue_length_graph env2
        (record_queue_length_graph env queue_list waiting_jobs_list is_cam_queue)
        waiting_jobs_list is_cam_queue
       = record_queue_length_graph env queue_list waiting_jobs_list is_cam_queue
   \<and> (distinct_adj (map snd queue_list) \<longrightarrow>
        distinct_adj (map snd
          (record_queue_length_graph env queue_list waiting_jobs_list is_cam_queue)))
   \<and> (queue_list \<noteq> [] \<and>
        snd (last queue_list) =
          (if is_cam_queue
           then (if waiting_jobs_list = [] then 0
                 else \<lceil>real (length waiting_jobs_list) / real_of_int BATCH_SIZE\<rceil>)
           else int (length waiting_jobs_list)) \<longrightarrow>
        record_queue_length_graph env queue_list waiting_jobs_list is_cam_queue = queue_list)
   \<and> (queue_list = [] \<or>
        snd (last queue_list) \<noteq>
          (if is_cam_queue
           then (if waiting_jobs_list = [] then 0
                 else \<lceil>real (length waiting_jobs_list) / real_of_int BATCH_SIZE\<rceil>)
           else int (length waiting_jobs_list)) \<longrightarrow>
        record_queue_length_graph env queue_list waiting_jobs_list is_cam_queue =
          queue_list @
            [(now env,
              if is_cam_queue
              then (if waiting_jobs_list = [] then 0
                    else \<lceil>real (length waiting_jobs_list) / real_of_int BATCH_SIZE\<rceil>)
              else int (length waiting_jobs_list))])"
proof -
  have ws: "(queue_list \<noteq> [] \<and> snd (last queue_list) = len \<longrightarrow>
      record_queue_length_ws env queue_list len = queue_list)
   \<and> (queue_list = [] \<or> snd (last queue_list) \<noteq> len \<longrightarrow>
      record_queue_length_ws env queue_list len = queue_list @ [(now env, len)])
   \<and> record_queue_length_ws env2 (record_queue_length_ws env queue_list len) len
       = record_queue_length_ws env queue_list len
   \<and> (distinct_adj (map snd queue_list) \<longrightarrow>
        distinct_adj (map snd (record_queue_length_ws env queue_list len)))
   \<and> distinct_adj (map snd (foldl (\<lambda>q (e, v). record_queue_length_ws e q v) [(0, 0)] evs))
   \<and> record_queue_length_graph env2
        (record_queue_length_graph env queue_list waiting_jobs_list is_cam_queue)
        waiting_jobs_list is_cam_queue
       = record_queue_length_graph env queue_list waiting_jobs_list is_cam_queue
   \<and> (distinct_adj (map snd queue_list) \<longrightarrow>
        distinct_adj (map snd
          (record_queue_length_graph env queue_list waiting_jobs_list is_cam_queue)))"
    using record_ws_same [of queue_list len env] record_ws_changed [of queue_list len env]
      record_ws_foldl_distinct_adj [of "[(0, 0)]" evs]
    by (simp add: record_ws_idem record_ws_distinct_adj record_graph_ws)
  have same: "queue_list \<noteq> [] \<and>
        snd (last queue_list) =
          (if is_cam_queue
           then (if waiting_jobs_list = [] then 0
                 else \<lceil>real (length waiting_jobs_list) / real_of_int BATCH_SIZE\<rceil>)
           else int (length waiting_jobs_list)) \<longrightarrow>
        record_queue_length_graph env queue_list waiting_jobs_list is_cam_queue = queue_list"
    using record_graph_same [of queue_list is_cam_queue waiting_jobs_list env] by blast
  have changed: "queue_list = [] \<or>
        snd (last queue_list) \<noteq>
          (if is_cam_queue
           then (if waiting_jobs_list = [] then 0
                 else \<lceil>real (length waiting_jobs_list) / real_of_int BATCH_SIZE\<rceil>)
           else int (length waiting_jobs_list)) \<longrightarrow>
        record_queue_length_graph env queue_list waiting_jobs_list is_cam_queue =
          queue_list @
            [(now env,
              if is_cam_queue
              then (if waiting_jobs_list = [] then 0
                    else \<lceil>real (length waiting_jobs_list) / real_of_int BATCH_SIZE\<rceil>)
              else int (length waiting_jobs_list))]"
    using record_graph_changed [of queue_list is_cam_queue waiting_jobs_list env] by blast
  from ws same changed show ?thesis by blast
qed

theorem record_queue_length_change_only_witness:
  "record_queue_length_ws (at_time 7 Environment) [(0, 0), (2, 3)] 3 = [(0, 0), (2, 3)]
   \<and> record_queue_length_ws (at_time 7 Environment) [(0, 0), (2, 3)] 1
       = [(0, 0), (2, 3), (7, 1)]
   \<and> distinct_adj (map snd (record_queue_length_ws (at_time 7 Environment) [(0, 0), (2, 3)] 1))
   \<and> distinct_adj (map snd
        (record_queue_length_graph (at_time 7 Environment) [(0, 0), (2, 1)] [4, 5] True))
   \<and> record_queue_length_graph (at_time 7 Environment) [(0, 0), (2, 1)] [4, 5] True
       = [(0, 0), (2, 1)]
   \<and> record_queue_length_graph (at_time 7 Environment) [(0, 0)] [4, 5] True
       = [(0, 0), (7, 1)]
   \<and> record_queue_length_graph (at_time 7 Environment) [(0, 0), (2, 3)] [4, 5] False
       = [(0, 0), (2, 3), (7, 2)]
   \<and> record_queue_length_graph (at_time 7 Environment) [] [] True = [(7, 0)]"
proof -
  have c: "\<lceil>(1::real) / 100\<rceil> = 1"
    by (simp add: ceiling_eq_iff)
  have a: "record_queue_length_ws (at_time 7 Environment) [(0, 0), (2, 3)] 3 = [(0, 0), (2, 3)]"
    using record_queue_length_change_only
      [where queue_list = "[(0, 0), (2, 3)]" and len = 3 and env = "at_time 7 Environment"
        and ?env2.0 = "at_time 7 Environment" and evs = "[]" and waiting_jobs_list = "[]"
        and is_cam_queue = False]
    by simp
  have b: "record_queue_length_ws (at_time 7 Environment) [(0, 0), (2, 3)] 1
       = [(0, 0), (2, 3), (7, 1)]
     \<and> distinct_adj (map snd
          (record_queue_length_ws (at_time 7 Environment) [(0, 0), (2, 3)] 1))"
    using record_queue_length_change_only
      [where queue_list = "[(0, 0), (2, 3)]" and len = 1 and env = "at_time 7 Environment"
        and ?env2.0 = "at_time 7 Environment" and evs = "[]" and waiting_jobs_list = "[]"
        and is_cam_queue = False]
    by (simp add: at_time_def)
  have d: "record_queue_length_graph (at_time 7 Environment) [(0, 0), (2, 1)] [4, 5] True
       = [(0, 0), (2, 1)]
     \<and> distinct_adj (map snd
          (record_queue_length_graph (at_time 7 Environment) [(0, 0), (2, 1)] [4, 5] True))"
    using record_queue_length_change_only
      [where queue_list = "[(0, 0), (2, 1)]" and len = 1 and env = "at_time 7 Environment"
        and ?env2.0 = "at_time 7 Environment" and evs = "[]" and waiting_jobs_list = "[4, 5]"
        and is_cam_queue = True]
    by (simp add: BATCH_SIZE_def c)
  have e: "record_queue_length_graph (at_time 7 Environment) [(0, 0)] [4, 5] True
       = [(0, 0), (7, 1)]"
    using record_queue_length_change_only
      [where queue_list = "[(0, 0)]" and len = 1 and env = "at_time 7 Environment"
        and ?env2.0 = "at_time 7 Environment" and evs = "[]" and waiting_jobs_list = "[4, 5]"
        and is_cam_queue = True]
    by (simp add: BATCH_SIZE_def c at_time_def)
  have f: "record_queue_length_graph (at_time 7 Environment) [(0, 0), (2, 3)] [4, 5] False
       = [(0, 0), (2, 3), (7, 2)]"
    using record_queue_length_change_only
      [where queue_list = "[(0, 0), (2, 3)]" and len = 1 and env = "at_time 7 Environment"
        and ?env2.0 = "at_time 7 Environment" and evs = "[]" and waiting_jobs_list = "[4, 5]"
        and is_cam_queue = False]
    by (simp add: at_time_def)
  have g: "record_queue_length_graph (at_time 7 Environment) [] [] True = [(7, 0)]"
    using record_queue_length_change_only
      [where queue_list = "[]" and len = 1 and env = "at_time 7 Environment"
        and ?env2.0 = "at_time 7 Environment" and evs = "[]" and waiting_jobs_list = "[]"
        and is_cam_queue = True]
    by (simp add: at_time_def)
  from a b d e f g show ?thesis by blast
qed

lemma blocks_bounds:
  "int n \<le> blocks n * BATCH_SIZE \<and> blocks n * BATCH_SIZE < int n + BATCH_SIZE"
proof -
  define c where "c = \<lceil>real n / 200\<rceil>"
  have "real_of_int c - 1 < real n / 200 \<and> real n / 200 \<le> real_of_int c"
    unfolding c_def by (rule ceiling_correct)
  hence "real_of_int (c * 200) < real_of_int (int n + 200)"
        "real_of_int (int n) \<le> real_of_int (c * 200)"
    by simp_all
  hence "c * 200 < int n + 200" "int n \<le> c * 200"
    unfolding of_int_less_iff of_int_le_iff .
  thus ?thesis by (auto simp add: blocks_def BATCH_SIZE_def c_def)
qed

text \<open>
  Claim C9. With \<open>is_cam_queue\<close> set, both lossy variants record for a waiting list of \<open>n\<close>
  jobs the value \<open>ceil(n / BATCH_SIZE)\<close>, and 0 for an empty list: the least number of
  blocks of \<open>BATCH_SIZE\<close> jobs that hold \<open>n\<close> jobs, which is also the blocks figure of the
  report. Without the flag (the MAC queue) the recorded value is the number of jobs.
\<close>

theorem cam_queue_recorded_in_blocks:
  "record_queue_length_works env queue_list waiting_jobs_list True
     = record_queue_length_ws env queue_list
         (if waiting_jobs_list = [] then 0
          else \<lceil>real (length waiting_jobs_list) / real_of_int BATCH_SIZE\<rceil>)
   \<and> record_queue_length_graph env queue_list waiting_jobs_list True
     = record_queue_length_ws env queue_list
         (if waiting_jobs_list = [] then 0
          else \<lceil>real (length waiting_jobs_list) / real_of_int BATCH_SIZE\<rceil>)
   \<and> snd (last (record_queue_length_graph env queue_list waiting_jobs_list True))
     = blocks (length waiting_jobs_list)
   \<and> snd (last (record_queue_length_works env queue_list waiting_jobs_list True))
     = blocks (length waiting_jobs_list)
   \<and> int (length waiting_jobs_list) \<le> blocks (length waiting_jobs_list) * BATCH_SIZE
   \<and> blocks (length waiting_jobs_list) * BATCH_SIZE
       < int (length waiting_jobs_list) + BATCH_SIZE
   \<and> record_queue_length_works env queue_list waiting_jobs_list False
     = record_queue_length_ws env queue_list (int (length waiting_jobs_list))
   \<and> record_queue_length_graph env queue_list waiting_jobs_list False
     = record_queue_length_ws env queue_list (int (length waiting_jobs_list))"
  using blocks_bounds [of "length waiting_jobs_list"]
  by (simp add: record_works_ws record_graph_ws record_ws_last) (simp add: blocks_def)

theorem cam_queue_recorded_in_blocks_witness:
  "record_queue_length_graph (at_time 7 Environment) [(0, 0)] [4, 5] True = [(0, 0), (7, 1)]
   \<and> record_queue_length_works (at_time 7 Environment) [(0, 0)] [4, 5] True = [(0, 0), (7, 1)]
   \<and> record_queue_length_graph (at_time 7 Environment) [(0, 0)] [4, 5] False = [(0, 0), (7, 2)]
   \<and> blocks 2 = 1"
proof -
  have c: "\<lceil>(1::real) / 100\<rceil> = 1"
    by (simp add: ceiling_eq_iff)
  have b: "blocks 2 = 1"
    by (simp add: blocks_def BATCH_SIZE_def c)
  show ?thesis
    using cam_queue_recorded_in_blocks [of "at_time 7 Environment" "[(0, 0)]" "[4, 5]"]
    by (simp add: record_queue_length_ws_def at_time_def BATCH_SIZE_def c b)
qed

section \<open>Properties of the job generator\<close>

lemma priority_rule:
  "fst (job_generator_priority u stats) = (if u \<le> 0.1 then 1 else 0)
   \<and> priority_1_count (snd (job_generator_priority u stats))
       = priority_1_count stats + (if u \<le> 0.1 then 1 else 0)"
  by (simp add: job_generator_priority_def)

lemma job_generator_priorities:
  "map snd (fst (job_generator us job_id stats))
     = map (\<lambda>u. if u \<le> 0.1 then 1 else 0) (take (nat (max_jobs - job_id)) us)"
proof (induction us arbitrary: job_id stats)
  case Nil
  then show ?case by (simp add: job_generator_head_def)
next
  case (Cons u us)
  show ?case
  proof (cases "job_id < max_jobs")
    case True
    hence "nat (max_jobs - job_id) = Suc (nat (max_jobs - (job_id + 1)))" by simp
    with True Cons.IH show ?thesis
      by (simp add: job_generator_head_def job_generator_priority_def split_beta)
  next
    case False
    then show ?thesis by (simp add: job_generator_head_def)
  qed
qed

lemma job_generator_count:
  "priority_1_count (snd (job_generator us job_id stats))
     = priority_1_count stats
       + int (length (filter (\<lambda>jp. snd jp = 1) (fst (job_generator us job_id stats))))"
proof (induction us arbitrary: job_id stats)
  case Nil
  then show ?case by (simp add: job_generator_head_def)
next
  case (Cons u us)
  show ?case
  proof (cases "job_id < max_jobs")
    case True
    with Cons.IH show ?thesis
      by (simp add: job_generator_head_def job_generator_priority_def split_beta)
  next
    case False
    then show ?thesis by (simp add: job_generator_head_def)
  qed
qed

text \<open>
  Claim C5, as amended. In the three variants that keep statistics, \<open>job_generator\<close> gives a
  new job priority 1 exactly when its draw is at most 0.1 and priority 0 otherwise, and it
  adds one to \<open>priority_1_count\<close> exactly in the first case; so over a whole run the
  priorities of the started jobs follow the draws and the counter grows by the number of
  priority-1 jobs started.
\<close>

theorem priority_rule_with_statistics:
  "fst (job_generator_priority u stats) = (if u \<le> 0.1 then 1 else 0)
   \<and> priority_1_count (snd (job_generator_priority u stats))
       = priority_1_count stats + (if u \<le> 0.1 then 1 else 0)
   \<and> map snd (fst (job_generator us job_id stats))
       = map (\<lambda>u. if u \<le> 0.1 then 1 else 0) (take (nat (max_jobs - job_id)) us)
   \<and> priority_1_count (snd (job_generator us job_id stats))
       = priority_1_count stats
         + int (length (filter (\<lambda>jp. snd jp = 1) (fst (job_generator us job_id stats))))"
  using priority_rule [of u stats] job_generator_priorities [of us job_id stats]
    job_generator_count [of us job_id stats]
  by simp

theorem priority_rule_with_statistics_witness:
  "fst (job_generator [0.05, 0.5, 0.1] 0 StatisticsCollector_ws) = [(1, 1), (2, 0), (3, 1)]
   \<and> priority_1_count (snd (job_generator [0.05, 0.5, 0.1] 0 StatisticsCollector_ws)) = 2
   \<and> fst (job_generator_priority 0.05 StatisticsCollector_ws) = 1"
  using priority_rule_with_statistics [of "0.05" StatisticsCollector_ws "[0.05, 0.5, 0.1]" 0]
  by (simp add: job_generator_head_def job_generator_priority_def max_jobs_def
      StatisticsCollector_ws_def)

text \<open>
  The claim as stated, for every variant, fails in \<^verbatim>\<open>pythonversion.py\<close>: there a draw of
  0.5, which is above 0.1, gives priority 1.
\<close>

theorem priority_rule_first_variant_counterexample:
  "job_generator_v0 [0.5] 0 = [(1, 1)]
   \<and> \<not> (0.5 \<le> (0.1 :: real))
   \<and> job_generator_priority_v0 0.5 \<noteq> (if (0.5 :: real) \<le> 0.1 then 1 else 0)"
  by (simp add: job_generator_priority_v0_def max_jobs_def)

section \<open>Properties of the lossy gate\<close>

lemma route_works_graph:
  "job_process_route_works env u job_id w = job_process_route_graph env u job_id w"
  by (simp add: job_process_route_works_def job_process_route_graph_def BATCH_SIZE_def
      record_works_graph Let_def)

lemma route_arrivals_works_graph:
  "route_arrivals_works arrivals w = route_arrivals_graph arrivals w"
  by (induction arrivals arbitrary: w) (auto simp: route_works_graph)

lemma route_result:
  "fst (job_process_route_graph env u job_id w) =
     (if lane_counter (lane_of_draw u) w + 1 = BATCH_SIZE
      then RequestsCam (lane_of_draw u) (now env) else Leaves)"
  by (simp add: job_process_route_graph_def lane_counter_def lane_of_draw_def Let_def)

lemma route_counter:
  "lane_counter l (snd (job_process_route_graph env u job_id w)) =
     (if l = lane_of_draw u
      then (if lane_counter l w + 1 = BATCH_SIZE then 0 else lane_counter l w + 1)
      else lane_counter l w)"
  by (cases l) (simp_all add: job_process_route_graph_def lane_counter_def lane_of_draw_def Let_def)

lemma route_terminated:
  "jobs_terminated (collector (snd (job_process_route_graph env u job_id w)))
     = jobs_terminated (collector w)"
  by (simp add: job_process_route_graph_def Let_def)

lemma counters_ok_lane:
  "counters_ok w \<longleftrightarrow> (\<forall>l. 0 \<le> lane_counter l w \<and> lane_counter l w < BATCH_SIZE)"
proof
  assume "counters_ok w"
  thus "\<forall>l. 0 \<le> lane_counter l w \<and> lane_counter l w < BATCH_SIZE"
    by (auto simp: counters_ok_def lane_counter_def split: lane.splits)
next
  assume a: "\<forall>l. 0 \<le> lane_counter l w \<and> lane_counter l w < BATCH_SIZE"
  from a [rule_format, of Quet] a [rule_format, of Queo] show "counters_ok w"
    by (simp add: counters_ok_def lane_counter_def)
qed

lemma counter_step_mod:
  assumes "0 \<le> c" and "c < BATCH_SIZE"
  shows "(if c + 1 = BATCH_SIZE then 0 else c + 1) = (c + 1) mod BATCH_SIZE"
proof (cases "c + 1 = BATCH_SIZE")
  case True
  then show ?thesis by simp
next
  case False
  with assms have "0 \<le> c + 1" and "c + 1 < BATCH_SIZE" by simp_all
  hence "(c + 1) mod BATCH_SIZE = c + 1" by (rule mod_pos_pos_trivial)
  with False show ?thesis by simp
qed

lemma counter_full_mod:
  assumes "0 \<le> c" and "c < BATCH_SIZE"
  shows "(c + 1) mod BATCH_SIZE = 0 \<longleftrightarrow> c + 1 = BATCH_SIZE"
  using counter_step_mod [OF assms] assms(1) by (auto split: if_splits)

lemma lane_counter_range:
  "counters_ok w \<Longrightarrow> 0 \<le> lane_counter l w \<and> lane_counter l w < BATCH_SIZE"
  by (cases l) (simp_all add: counters_ok_def lane_counter_def)

lemma route_counters_ok:
  assumes "counters_ok w"
  shows "counters_ok (snd (job_process_route_graph env u job_id w))"
  unfolding counters_ok_lane
proof
  fix l
  show "0 \<le> lane_counter l (snd (job_process_route_graph env u job_id w))
      \<and> lane_counter l (snd (job_process_route_graph env u job_id w)) < BATCH_SIZE"
    using lane_counter_range [OF assms, of l]
    by (auto simp: route_counter BATCH_SIZE_def)
qed

lemma route_counter_mod:
  assumes "counters_ok w"
  shows "lane_counter l (snd (job_process_route_graph env u job_id w)) =
     (lane_counter l w + (if l = lane_of_draw u then 1 else 0)) mod BATCH_SIZE"
  using lane_counter_range [OF assms, of l] counter_step_mod [of "lane_counter l w"]
  by (auto simp: route_counter)

lemma route_arrivals_length: "length (fst (route_arrivals_graph arrivals w)) = length arrivals"
  by (induction arrivals arbitrary: w) (auto simp: split_beta)

lemma route_arrivals_terminated:
  "jobs_terminated (collector (snd (route_arrivals_graph arrivals w)))
     = jobs_terminated (collector w)"
  by (induction arrivals arbitrary: w) (auto simp: split_beta route_terminated)

lemma route_arrivals_nth:
  assumes "counters_ok w" "i < length arrivals"
  shows "fst (route_arrivals_graph arrivals w) ! i =
     (let env = fst (arrivals ! i); l = lane_of_draw (fst (snd (arrivals ! i)))
      in if (lane_counter l w + int (lane_arrivals l (Suc i) arrivals)) mod BATCH_SIZE = 0
         then RequestsCam l (now env) else Leaves)"
  using assms
proof (induction arrivals arbitrary: w i)
  case Nil
  then show ?case by simp
next
  case (Cons a rest)
  obtain env u job_id where a: "a = (env, u, job_id)" by (cases a)
  let ?w1 = "snd (job_process_route_graph env u job_id w)"
  have ok1: "counters_ok ?w1" using Cons.prems(1) by (rule route_counters_ok)
  show ?case
  proof (cases i)
    case 0
    have "0 \<le> lane_counter (lane_of_draw u) w \<and> lane_counter (lane_of_draw u) w < BATCH_SIZE"
      using Cons.prems(1) unfolding counters_ok_lane by blast
    hence "(lane_counter (lane_of_draw u) w + 1) mod BATCH_SIZE = 0
        \<longleftrightarrow> lane_counter (lane_of_draw u) w + 1 = BATCH_SIZE"
      by (simp add: counter_full_mod)
    thus ?thesis using 0 a
      by (simp add: split_beta route_result lane_arrivals_def Let_def)
  next
    case (Suc j)
    hence j: "j < length rest" using Cons.prems(2) by simp
    let ?l = "lane_of_draw (fst (snd (rest ! j)))"
    have cnt: "lane_arrivals ?l (Suc (Suc j)) (a # rest)
        = (if ?l = lane_of_draw u then 1 else 0) + lane_arrivals ?l (Suc j) rest"
      using a by (simp add: lane_arrivals_def)
    have "(lane_counter ?l ?w1 + int (lane_arrivals ?l (Suc j) rest)) mod BATCH_SIZE
        = (lane_counter ?l w + int (lane_arrivals ?l (Suc (Suc j)) (a # rest))) mod BATCH_SIZE"
      unfolding route_counter_mod [OF Cons.prems(1)] cnt
      by (simp add: mod_add_left_eq add.assoc)
    thus ?thesis using Cons.IH [OF ok1 j] Suc a
      by (simp add: split_beta Let_def)
  qed
qed


lemma lane_arrivals_one_lane:
  assumes "\<forall>a \<in> set arrivals. lane_of_draw (fst (snd a)) = l" and "i < length arrivals"
  shows "lane_arrivals l (Suc i) arrivals = Suc i"
proof -
  have "\<forall>a \<in> set (take (Suc i) arrivals). lane_of_draw (fst (snd a)) = l"
    using assms(1) by (meson in_set_takeD)
  hence "filter (\<lambda>a. lane_of_draw (fst (snd a)) = l) (take (Suc i) arrivals)
      = take (Suc i) arrivals"
    by (simp add: filter_id_conv)
  thus ?thesis using assms(2) by (simp add: lane_arrivals_def)
qed

lemma route_arrivals_one_lane:
  assumes "counters_ok w" and "i < length arrivals"
    and "\<forall>a \<in> set arrivals. lane_of_draw (fst (snd a)) = l" and "lane_counter l w = 0"
  shows "fst (route_arrivals_graph arrivals w) ! i =
     (if BATCH_SIZE dvd int (Suc i) then RequestsCam l (now (fst (arrivals ! i))) else Leaves)"
proof -
  have l: "lane_of_draw (fst (snd (arrivals ! i))) = l"
    using assms(2,3) by simp
  show ?thesis
    using route_arrivals_nth [OF assms(1,2)] lane_arrivals_one_lane [OF assms(3,2)] assms(4)
    by (simp add: l Let_def mod_eq_0_iff_dvd)
qed

lemma cam_granted_graph_terminated:
  "(case job_process_cam_granted_graph l env start_time cam_wait_start job_id w of
      Inl e \<Rightarrow> True
    | Inr w1 \<Rightarrow> jobs_terminated (collector w1) = jobs_terminated (collector w))"
  by (cases l) (simp_all add: job_process_cam_granted_graph_def Let_def)

lemma cam_granted_works_terminated:
  "(case job_process_cam_granted_works l env start_time cam_wait_start job_id w of
      Inl e \<Rightarrow> True
    | Inr w1 \<Rightarrow> jobs_terminated (collector w1) = jobs_terminated (collector w))"
  by (cases l) (simp_all add: job_process_cam_granted_works_def Let_def)

lemma terminate_counts_one:
  "jobs_terminated (collector (job_process_terminate env arrival_time w))
     = jobs_terminated (collector w) + 1"
  by (simp add: job_process_terminate_def Let_def)

text \<open>
  Claim C2. Processes reach the routing piece one after the other. Whatever the values of
  the two counters below \<open>BATCH_SIZE\<close> at the start, the process at position \<open>i\<close> goes on
  to request stage B exactly when its arrival brings the count of its lane (the counter
  at the start plus the arrivals of that lane up to and including it) to a multiple of
  \<open>BATCH_SIZE\<close>, and it does so at the clock of its own arrival; every other process
  reaches the end of the function there. In particular, when all arrivals go to one lane
  whose counter starts at 0, exactly the arrivals number \<open>BATCH_SIZE\<close>, \<open>2 * BATCH_SIZE\<close>,
  ... go on. The routing piece never changes \<open>jobs_terminated\<close>, nor does the piece run
  at the grant of stage B; the piece after the stage-B service, which only a process
  that went on reaches, adds exactly one. Both lossy variants behave alike.
\<close>

theorem lossy_gate_single_survivor:
  assumes "counters_ok w" and "i < length arrivals"
  shows "fst (route_arrivals_graph arrivals w) ! i =
       (let env = fst (arrivals ! i); l = lane_of_draw (fst (snd (arrivals ! i)))
        in if (lane_counter l w + int (lane_arrivals l (Suc i) arrivals)) mod BATCH_SIZE = 0
           then RequestsCam l (now env) else Leaves)
     \<and> fst (route_arrivals_works arrivals w) ! i =
       (let env = fst (arrivals ! i); l = lane_of_draw (fst (snd (arrivals ! i)))
        in if (lane_counter l w + int (lane_arrivals l (Suc i) arrivals)) mod BATCH_SIZE = 0
           then RequestsCam l (now env) else Leaves)
     \<and> ((\<forall>a \<in> set arrivals. lane_of_draw (fst (snd a)) = l1) \<and> lane_counter l1 w = 0 \<longrightarrow>
          fst (route_arrivals_graph arrivals w) ! i =
            (if BATCH_SIZE dvd int (Suc i)
             then RequestsCam l1 (now (fst (arrivals ! i))) else Leaves)
          \<and> fst (route_arrivals_works arrivals w) ! i =
            (if BATCH_SIZE dvd int (Suc i)
             then RequestsCam l1 (now (fst (arrivals ! i))) else Leaves))
     \<and> jobs_terminated (collector (snd (route_arrivals_graph arrivals w)))
         = jobs_terminated (collector w)
     \<and> jobs_terminated (collector (snd (route_arrivals_works arrivals w)))
         = jobs_terminated (collector w)
     \<and> (case job_process_cam_granted_graph l2 env2 start_time cam_wait_start job_id w2 of
           Inl e \<Rightarrow> True
         | Inr w3 \<Rightarrow> jobs_terminated (collector w3) = jobs_terminated (collector w2))
     \<and> (case job_process_cam_granted_works l2 env2 start_time cam_wait_start job_id w2 of
           Inl e \<Rightarrow> True
         | Inr w3 \<Rightarrow> jobs_terminated (collector w3) = jobs_terminated (collector w2))
     \<and> jobs_terminated (collector (job_process_terminate env3 arrival_time w2))
         = jobs_terminated (collector w2) + 1"
proof -
  have one: "(\<forall>a \<in> set arrivals. lane_of_draw (fst (snd a)) = l1) \<and> lane_counter l1 w = 0 \<longrightarrow>
      fst (route_arrivals_graph arrivals w) ! i =
        (if BATCH_SIZE dvd int (Suc i)
         then RequestsCam l1 (now (fst (arrivals ! i))) else Leaves)"
    using route_arrivals_one_lane [OF assms, of l1] by blast
  show ?thesis
    unfolding route_arrivals_works_graph
    using route_arrivals_nth [OF assms] one
      cam_granted_graph_terminated [where l = l2 and env = env2 and w = w2
        and start_time = start_time and cam_wait_start = cam_wait_start and job_id = job_id]
      cam_granted_works_terminated [where l = l2 and env = env2 and w = w2
        and start_time = start_time and cam_wait_start = cam_wait_start and job_id = job_id]
    by (simp add: route_arrivals_terminated terminate_counts_one)
qed

theorem lossy_gate_single_survivor_witness:
  "counters_ok (module_start\<lparr>ASSEMBLEQUET := 198\<rparr>)
   \<and> fst (route_arrivals_graph
        [(at_time 1 Environment, 0.3, 1), (at_time 2 Environment, 0.4, 2),
         (at_time 3 Environment, 0.2, 3)]
        (module_start\<lparr>ASSEMBLEQUET := 198\<rparr>)) ! 0 = Leaves
   \<and> fst (route_arrivals_graph
        [(at_time 1 Environment, 0.3, 1), (at_time 2 Environment, 0.4, 2),
         (at_time 3 Environment, 0.2, 3)]
        (module_start\<lparr>ASSEMBLEQUET := 198\<rparr>)) ! 1 = RequestsCam Quet 2
   \<and> fst (route_arrivals_works
        [(at_time 1 Environment, 0.3, 1), (at_time 2 Environment, 0.4, 2),
         (at_time 3 Environment, 0.2, 3)]
        (module_start\<lparr>ASSEMBLEQUET := 198\<rparr>)) ! 2 = Leaves
   \<and> counters_ok module_start
   \<and> lane_counter Queo module_start = 0
   \<and> fst (route_arrivals_graph
        [(at_time 1 Environment, 0.7, 1), (at_time 2 Environment, 0.9, 2)] module_start) ! 1
       = Leaves"
proof -
  let ?w = "module_start\<lparr>ASSEMBLEQUET := 198\<rparr>"
  let ?as = "[(at_time 1 Environment, 0.3, 1), (at_time 2 Environment, 0.4, 2),
         (at_time 3 Environment, 0.2, 3)] :: arrival list"
  let ?bs = "[(at_time 1 Environment, 0.7, 1), (at_time 2 Environment, 0.9, 2)] :: arrival list"
  have ok: "counters_ok ?w"
    by (simp add: counters_ok_def module_start_def BATCH_SIZE_def)
  have ok0: "counters_ok module_start"
    by (simp add: counters_ok_def module_start_def BATCH_SIZE_def)
  have c0: "lane_counter Queo module_start = 0"
    by (simp add: lane_counter_def module_start_def)
  have e0: "fst (route_arrivals_graph ?as ?w) ! 0 = Leaves"
    using lossy_gate_single_survivor [OF ok, of 0 ?as]
    by (simp add: lane_of_draw_def lane_arrivals_def lane_counter_def module_start_def
        BATCH_SIZE_def at_time_def del: route_arrivals_graph.simps)
  have e1: "fst (route_arrivals_graph ?as ?w) ! 1 = RequestsCam Quet 2"
    using lossy_gate_single_survivor [OF ok, of 1 ?as]
    by (simp add: lane_of_draw_def lane_arrivals_def lane_counter_def module_start_def
        BATCH_SIZE_def at_time_def del: route_arrivals_graph.simps)
  have e2: "fst (route_arrivals_works ?as ?w) ! 2 = Leaves"
    using lossy_gate_single_survivor [OF ok, of 2 ?as]
    by (simp add: lane_of_draw_def lane_arrivals_def lane_counter_def module_start_def
        BATCH_SIZE_def at_time_def
        del: route_arrivals_graph.simps route_arrivals_works.simps)
  have all: "\<forall>a \<in> set ?bs. lane_of_draw (fst (snd a)) = Queo"
    by (simp add: lane_of_draw_def)
  have len: "1 < length ?bs"
    by simp
  have "(\<forall>a \<in> set ?bs. lane_of_draw (fst (snd a)) = Queo) \<and> lane_counter Queo module_start = 0
      \<longrightarrow> fst (route_arrivals_graph ?bs module_start) ! 1 =
        (if BATCH_SIZE dvd int (Suc 1)
         then RequestsCam Queo (now (fst (?bs ! 1))) else Leaves)"
    using lossy_gate_single_survivor [OF ok0 len, where ?l1.0 = Queo] by blast
  hence e3: "fst (route_arrivals_graph ?bs module_start) ! 1 = Leaves"
    using all c0 by (simp add: BATCH_SIZE_def del: route_arrivals_graph.simps)
  from ok e0 e1 e2 ok0 c0 e3 show ?thesis by blast
qed

lemma arrive_graph_counters:
  "ASSEMBLEQUEO (job_process_arrive_graph env q w) = ASSEMBLEQUEO w
   \<and> ASSEMBLEQUET (job_process_arrive_graph env q w) = ASSEMBLEQUET w"
  by (simp add: job_process_arrive_graph_def Let_def)

lemma reachable_counters_ok: "reachable v w \<Longrightarrow> counters_ok w"
proof (induction rule: reachable.induct)
  case (start v)
  then show ?case by (simp add: counters_ok_def module_start_def BATCH_SIZE_def)
next
  case (route_graph w env u job_id r w1)
  then show ?case using route_counters_ok [of w env u job_id] by simp
next
  case (route_works w env u job_id r w1)
  then show ?case using route_counters_ok [of w env u job_id] by (simp add: route_works_graph)
next
  case (cam_granted_graph w l env start_time cam_wait_start job_id w1)
  then show ?case
    by (auto simp: counters_ok_def job_process_cam_granted_graph_def Let_def
        split: lane.splits if_splits)
next
  case (cam_granted_works w l env start_time cam_wait_start job_id w1)
  then show ?case
    by (auto simp: counters_ok_def job_process_cam_granted_works_def Let_def
        split: lane.splits if_splits)
qed (simp_all add: counters_ok_def job_process_arrive_graph_def job_process_arrive_works_def
      job_process_mac_granted_graph_def job_process_mac_granted_works_def
      job_process_terminate_def monitor_utilization_def Let_def)


text \<open>
  Claim C10. In every state that a run of either lossy variant can pass through, both
  module counters are at least 0 and below \<open>BATCH_SIZE\<close>. The routing piece adds one to
  the counter of the lane it selects, sets it to 0 in the same piece when it reaches
  \<open>BATCH_SIZE\<close>, and leaves the counter of the other lane unchanged; no other piece
  writes the counters.
\<close>

theorem lane_counters_invariant:
  "(reachable v w \<longrightarrow>
      0 \<le> ASSEMBLEQUEO w \<and> ASSEMBLEQUEO w < BATCH_SIZE
      \<and> 0 \<le> ASSEMBLEQUET w \<and> ASSEMBLEQUET w < BATCH_SIZE)
   \<and> lane_counter l (snd (job_process_route_graph env u job_id w1)) =
       (if l = lane_of_draw u
        then (if lane_counter l w1 + 1 = BATCH_SIZE then 0 else lane_counter l w1 + 1)
        else lane_counter l w1)
   \<and> lane_counter l (snd (job_process_route_works env u job_id w1)) =
       (if l = lane_of_draw u
        then (if lane_counter l w1 + 1 = BATCH_SIZE then 0 else lane_counter l w1 + 1)
        else lane_counter l w1)"
  using reachable_counters_ok [of v w]
  by (simp add: counters_ok_def route_counter route_works_graph)

theorem lane_counters_invariant_witness:
  "reachable Works (snd (job_process_route_works (at_time 1 Environment) 0.3 1 module_start))
   \<and> ASSEMBLEQUET (snd (job_process_route_works (at_time 1 Environment) 0.3 1 module_start)) = 1
   \<and> ASSEMBLEQUEO (snd (job_process_route_works (at_time 1 Environment) 0.3 1 module_start)) = 0
   \<and> 0 \<le> ASSEMBLEQUET (snd (job_process_route_works (at_time 1 Environment) 0.3 1 module_start))
   \<and> ASSEMBLEQUET (snd (job_process_route_works (at_time 1 Environment) 0.3 1 module_start))
       < BATCH_SIZE"
proof -
  let ?w = "snd (job_process_route_works (at_time 1 Environment) 0.3 1 module_start)"
  have r: "reachable Works ?w"
    by (rule reachable.route_works [OF reachable.start]) (rule prod.collapse [symmetric])
  have t: "ASSEMBLEQUET ?w = 1" and o: "ASSEMBLEQUEO ?w = 0"
    using lane_counters_invariant [of Works ?w Quet "at_time 1 Environment" "0.3" 1 module_start]
      lane_counters_invariant [of Works ?w Queo "at_time 1 Environment" "0.3" 1 module_start]
    by (simp_all add: lane_counter_def lane_of_draw_def module_start_def BATCH_SIZE_def)
  from r t o lane_counters_invariant [of Works ?w Quet "at_time 1 Environment" "0.3" 1 module_start]
  show ?thesis by simp
qed

section \<open>Properties of the release-all assembler\<close>

lemma assemble_ws_below:
  "batch_count a + 1 < batch_size a \<Longrightarrow>
   assemble_ws job_id a env =
     Inr (release_event a,
          a\<lparr>batch_count := batch_count a + 1, waiting_jobs := waiting_jobs a @ [job_id]\<rparr>, env)"
  by (simp add: assemble_ws_def Let_def)

text \<open>
  Whenever a call fills the batch (in an environment whose succeeded events have all been
  created, and with a release event that exists and has not succeeded), the caller gets
  the event created by that very call, which has not succeeded.
\<close>

lemma assemble_ws_trigger:
  assumes "batch_size a \<le> batch_count a + 1"
    and "events_created env"
    and "release_event a < next_event env"
    and "resumed_at env (release_event a) = None"
  shows "\<exists>a1 env1. assemble_ws job_id a env = Inr (next_event env, a1, env1)
           \<and> batch_count a1 = 0
           \<and> resumed_at env1 (release_event a) = Some (now env)
           \<and> resumed_at env1 (next_event env) = None"
proof -
  have fresh: "next_event env \<notin> fst ` set (succeeded env)"
    using assms(2) by (auto simp: events_created_def list_all_iff)
  have old: "release_event a \<notin> fst ` set (succeeded env)"
    using assms(4) by (simp add: resumed_at_def map_of_eq_None_iff)
  have ne: "release_event a \<noteq> next_event env"
    using assms(3) by simp
  show ?thesis
    using assms(1) fresh old ne assms(4)
    by (simp add: assemble_ws_def Let_def event_def succeed_def resumed_at_def
        map_of_eq_None_iff [symmetric] map_add_def)
qed

lemma assemble_scenario_ws:
  "assemble_arrivals_ws [(1, 1), (2, 2), (3, 3)]
     (fst (BatchAssembler Environment ''quet'' 3)) (snd (BatchAssembler Environment ''quet'' 3))
   = Inr ([(1, 0), (2, 0), (3, 1)],
          \<lparr>name = ''quet'', batch_size = 3, waiting_jobs = [1, 2, 3], batch_count = 0,
             release_event = 1\<rparr>,
          \<lparr>now = 3, next_event = 2, succeeded = [(0, 3)]\<rparr>)"
  by (simp add: BatchAssembler_def Environment_def event_def assemble_ws_def succeed_def
      at_time_def Let_def)

lemma assemble_scenario_works:
  "assemble_arrivals_works [(1, 1), (2, 2), (3, 3)]
     (fst (BatchAssembler Environment ''quet'' 3)) StatisticsCollector_lossy
     (snd (BatchAssembler Environment ''quet'' 3))
   = Inl AttributeError"
  by (simp add: BatchAssembler_def Environment_def event_def assemble_works_def
      at_time_def Let_def StatisticsCollector_lossy_def)

lemma assemble_scenario_works_assigned:
  "map_sum id (\<lambda>r. (fst r, assembled_batches_attr (fst (snd (snd r))),
                       succeeded (snd (snd (snd r)))))
     (assemble_arrivals_works [(1, 1), (2, 2), (3, 3)]
        (fst (BatchAssembler Environment ''quet'' 3))
        (StatisticsCollector_lossy\<lparr>assembled_batches_attr := Some 0\<rparr>)
        (snd (BatchAssembler Environment ''quet'' 3)))
   = Inr ([(1, 0), (2, 0), (3, 1)], Some 1, [(0, 3)])"
  by (simp add: BatchAssembler_def Environment_def event_def assemble_works_def succeed_def
      at_time_def Let_def StatisticsCollector_lossy_def)

text \<open>
  Claim C1. The claim is that the call of \<open>assemble\<close> which fills a batch of \<open>N\<close> resumes
  all \<open>N\<close> waiting jobs, the calling one included, at that instant, resets the count and
  counts one completed batch. The code does not do this. With a threshold of 3 and the
  jobs 1, 2 and 3 arriving at the times 1, 2 and 3, the variant with statistics resets the
  count and lets event 0 succeed at time 3, which resumes the jobs 1 and 2; but job 3 is
  handed the new event 1, which has not succeeded, so it stays suspended until the next
  batch fills. Each of the two resumed processes finds the count at 0 and adds one to
  \<open>assembled_batches\<close>, which ends at 2. In \<^verbatim>\<open>PySimWOAssemblerWorks.py\<close> the third call
  raises \<^verbatim>\<open>AttributeError\<close>, because the collector of that file has no
  \<^verbatim>\<open>assembled_batches\<close> attribute.
\<close>

theorem release_all_gate_evaluated:
  "assemble_arrivals_ws [(1, 1), (2, 2), (3, 3)]
     (fst (BatchAssembler Environment ''quet'' 3)) (snd (BatchAssembler Environment ''quet'' 3))
   = Inr ([(1, 0), (2, 0), (3, 1)],
          \<lparr>name = ''quet'', batch_size = 3, waiting_jobs = [1, 2, 3], batch_count = 0,
             release_event = 1\<rparr>,
          \<lparr>now = 3, next_event = 2, succeeded = [(0, 3)]\<rparr>)
   \<and> waiters [(1, 0), (2, 0), (3, 1)] 0 = [1, 2]
   \<and> resumed_at \<lparr>now = 3, next_event = 2, succeeded = [(0, 3)]\<rparr> 0 = Some 3
   \<and> waiters [(1, 0), (2, 0), (3, 1)] 1 = [3]
   \<and> resumed_at \<lparr>now = 3, next_event = 2, succeeded = [(0, 3)]\<rparr> 1 = None
   \<and> assembled_batches
       (resume_released_ws Quet \<lparr>now = 3, next_event = 2, succeeded = [(0, 3)]\<rparr>
          \<lparr>name = ''quet'', batch_size = 3, waiting_jobs = [1, 2, 3], batch_count = 0,
             release_event = 1\<rparr>
          [[], []] StatisticsCollector_ws) = 2
   \<and> assemble_arrivals_works [(1, 1), (2, 2), (3, 3)]
       (fst (BatchAssembler Environment ''quet'' 3)) StatisticsCollector_lossy
       (snd (BatchAssembler Environment ''quet'' 3))
     = Inl AttributeError"
proof (intro conjI)
  show "assemble_arrivals_ws [(1, 1), (2, 2), (3, 3)]
     (fst (BatchAssembler Environment ''quet'' 3)) (snd (BatchAssembler Environment ''quet'' 3))
   = Inr ([(1, 0), (2, 0), (3, 1)],
          \<lparr>name = ''quet'', batch_size = 3, waiting_jobs = [1, 2, 3], batch_count = 0,
             release_event = 1\<rparr>,
          \<lparr>now = 3, next_event = 2, succeeded = [(0, 3)]\<rparr>)"
    by (rule assemble_scenario_ws)
  show "assemble_arrivals_works [(1, 1), (2, 2), (3, 3)]
       (fst (BatchAssembler Environment ''quet'' 3)) StatisticsCollector_lossy
       (snd (BatchAssembler Environment ''quet'' 3))
     = Inl AttributeError"
    by (rule assemble_scenario_works)
qed (simp_all add: waiters_def resumed_at_def job_process_released_ws_def
      StatisticsCollector_ws_def)

section \<open>Properties of the set-up\<close>

lemma run_ws_cases:
  "run_simulation_ws cfg =
     (if cfg_mac_capacity cfg \<le> 0 \<or> cfg_cam_capacity cfg \<le> 0 \<or> cfg_until_time cfg \<le> 0
      then Inl ValueError
      else Inr \<lparr>ws_env = \<lparr>now = 0, next_event = 2, succeeded = []\<rparr>,
                ws_mac = \<lparr>capacity = cfg_mac_capacity cfg, users = [], queue = []\<rparr>,
                ws_cam = \<lparr>capacity = cfg_cam_capacity cfg, users = [], queue = []\<rparr>,
                ws_queo_assembler = \<lparr>name = ''queo'', batch_size = cfg_batch_size cfg,
                   waiting_jobs = [], batch_count = 0, release_event = 0\<rparr>,
                ws_quet_assembler = \<lparr>name = ''quet'', batch_size = cfg_batch_size cfg,
                   waiting_jobs = [], batch_count = 0, release_event = 1\<rparr>,
                ws_stats = StatisticsCollector_ws\<rparr>)"
  by (simp add: run_simulation_ws_def PriorityResource_def BatchAssembler_def event_def
      Environment_def run_check_def Let_def)

lemma run_works_cases:
  "run_simulation_works cfg =
     (if cfg_mac_capacity cfg \<le> 0 \<or> cfg_cam_capacity cfg \<le> 0 \<or> cfg_until_time cfg \<le> 0
      then Inl ValueError
      else Inr \<lparr>works_env = \<lparr>now = 0, next_event = 2, succeeded = []\<rparr>,
                works_mac = \<lparr>capacity = cfg_mac_capacity cfg, users = [], queue = []\<rparr>,
                works_cam = \<lparr>capacity = cfg_cam_capacity cfg, users = [], queue = []\<rparr>,
                works_queo_assembler = \<lparr>name = ''queo'', batch_size = cfg_batch_size cfg,
                   waiting_jobs = [], batch_count = 0, release_event = 0\<rparr>,
                works_quet_assembler = \<lparr>name = ''quet'', batch_size = cfg_batch_size cfg,
                   waiting_jobs = [], batch_count = 0, release_event = 1\<rparr>,
                works_stats = StatisticsCollector_lossy\<rparr>)"
  by (simp add: run_simulation_works_def PriorityResource_def BatchAssembler_def event_def
      Environment_def run_check_def Let_def)

text \<open>
  Claim C4, as amended. The set-up of a run fails exactly when the capacity of one of the
  two resources is below 1 or the horizon is not positive; the failure is the
  \<^verbatim>\<open>ValueError\<close> of the simulation library (there is no configuration error of the
  program's own), and it is raised before any event is executed. The batch size is not
  checked.
\<close>

theorem setup_rejects_capacity_and_horizon_only:
  "(isl (run_simulation_ws cfg) \<longleftrightarrow>
      cfg_mac_capacity cfg < 1 \<or> cfg_cam_capacity cfg < 1 \<or> cfg_until_time cfg \<le> 0)
   \<and> (isl (run_simulation_ws cfg) \<longrightarrow> run_simulation_ws cfg = Inl ValueError)
   \<and> (isl (run_simulation_works cfg) \<longleftrightarrow>
      cfg_mac_capacity cfg < 1 \<or> cfg_cam_capacity cfg < 1 \<or> cfg_until_time cfg \<le> 0)
   \<and> (isl (run_simulation_works cfg) \<longrightarrow> run_simulation_works cfg = Inl ValueError)"
  by (simp add: run_ws_cases run_works_cases)

theorem setup_rejects_capacity_and_horizon_only_witness:
  "run_simulation_ws \<lparr>cfg_mac_capacity = 0, cfg_cam_capacity = 12, cfg_batch_size = 200,
      cfg_until_time = 1440\<rparr> = Inl ValueError
   \<and> run_simulation_works \<lparr>cfg_mac_capacity = 6, cfg_cam_capacity = 12, cfg_batch_size = 200,
      cfg_until_time = 0\<rparr> = Inl ValueError
   \<and> \<not> isl (run_simulation_ws (source_config SIMULATION_TIME))"
  using setup_rejects_capacity_and_horizon_only
      [of "\<lparr>cfg_mac_capacity = 0, cfg_cam_capacity = 12, cfg_batch_size = 200,
            cfg_until_time = 1440\<rparr>"]
    setup_rejects_capacity_and_horizon_only
      [of "\<lparr>cfg_mac_capacity = 6, cfg_cam_capacity = 12, cfg_batch_size = 200,
            cfg_until_time = 0\<rparr>"]
    setup_rejects_capacity_and_horizon_only [of "source_config SIMULATION_TIME"]
  by (simp add: source_config_def MAC_CAPACITY_def CAM_CAPACITY_def SIMULATION_TIME_def)

text \<open>
  The claim as stated fails for the batch size: with \<open>batch_size = 0\<close> and valid capacities
  and horizon the set-up succeeds, with both assemblers holding the threshold 0.
\<close>

theorem setup_accepts_batch_size_zero_counterexample:
  "cfg_batch_size \<lparr>cfg_mac_capacity = 6, cfg_cam_capacity = 12, cfg_batch_size = 0,
      cfg_until_time = 1440\<rparr> < 1
   \<and> \<not> isl (run_simulation_ws \<lparr>cfg_mac_capacity = 6, cfg_cam_capacity = 12,
        cfg_batch_size = 0, cfg_until_time = 1440\<rparr>)
   \<and> \<not> isl (run_simulation_works \<lparr>cfg_mac_capacity = 6, cfg_cam_capacity = 12,
        cfg_batch_size = 0, cfg_until_time = 1440\<rparr>)
   \<and> batch_size (ws_quet_assembler (projr (run_simulation_ws \<lparr>cfg_mac_capacity = 6,
        cfg_cam_capacity = 12, cfg_batch_size = 0, cfg_until_time = 1440\<rparr>))) = 0"
  by (simp add: run_ws_cases run_works_cases)


end
